theory Spec2Isabelle
  imports Complex_Main
begin

section \<open>BacteriaHunter: a shallow embedding of the simulation core\<close>

text \<open>
  The model follows \<^verbatim>\<open>src/components/games/BacteriaHunter.tsx\<close>. JavaScript numbers
  that hold coordinates, speeds and timers are reals; hit points, points, scores and
  counters (always whole numbers in the source) are integers; array indices are naturals;
  \<^verbatim>\<open>Date.now()\<close> is an integer number of milliseconds handed in by the caller.
  Arithmetic is exact: the rounding of floating-point numbers is not part of the model.
  Scene-graph bookkeeping (meshes, materials, \<^verbatim>\<open>mesh.rotation\<close>, the fact popup) has
  no influence on the simulation state and is left out; of a mesh only its position is kept.
\<close>

subsection \<open>THREE.Vector3\<close>

text \<open>
  The vector operations are those of the three.js class \<^verbatim>\<open>Vector3\<close> that the source
  calls. \<^verbatim>\<open>normalize()\<close> is \<^verbatim>\<open>this.divideScalar(this.length() || 1)\<close>: a vector of
  length zero is divided by one.
\<close>

datatype vector3 = Vector3 (vx: real) (vy: real) (vz: real)

definition add :: "vector3 \<Rightarrow> vector3 \<Rightarrow> vector3" where
  "add a b = Vector3 (vx a + vx b) (vy a + vy b) (vz a + vz b)"

definition sub3 :: "vector3 \<Rightarrow> vector3 \<Rightarrow> vector3" where
  "sub3 a b = Vector3 (vx a - vx b) (vy a - vy b) (vz a - vz b)"

definition multiplyScalar :: "vector3 \<Rightarrow> real \<Rightarrow> vector3" where
  "multiplyScalar a s = Vector3 (vx a * s) (vy a * s) (vz a * s)"

definition divideScalar :: "vector3 \<Rightarrow> real \<Rightarrow> vector3" where
  "divideScalar a s = multiplyScalar a (1 / s)"

definition lengthSq :: "vector3 \<Rightarrow> real" where
  "lengthSq a = vx a * vx a + vy a * vy a + vz a * vz a"

definition length3 :: "vector3 \<Rightarrow> real" where
  "length3 a = sqrt (lengthSq a)"

definition normalize3 :: "vector3 \<Rightarrow> vector3" where
  "normalize3 a = divideScalar a (if length3 a = 0 then 1 else length3 a)"

definition lerp :: "vector3 \<Rightarrow> vector3 \<Rightarrow> real \<Rightarrow> vector3" where
  "lerp a v alpha =
     Vector3 (vx a + (vx v - vx a) * alpha) (vy a + (vy v - vy a) * alpha)
             (vz a + (vz v - vz a) * alpha)"

definition distanceToSquared :: "vector3 \<Rightarrow> vector3 \<Rightarrow> real" where
  "distanceToSquared a v = lengthSq (sub3 a v)"

definition distanceTo :: "vector3 \<Rightarrow> vector3 \<Rightarrow> real" where
  "distanceTo a v = sqrt (distanceToSquared a v)"

subsection \<open>Math.random\<close>

text \<open>
  \<^verbatim>\<open>Math.random()\<close> returns a number in the half-open interval from 0 to 1. The
  generator is a sequence of such numbers; every function that draws from it takes the
  index of the next draw and returns the index after its last draw.
\<close>

typedef unit_interval = "{r::real. 0 \<le> r \<and> r < 1}"
  by (rule exI [of _ 0]) simp

type_synonym random_source = "nat \<Rightarrow> unit_interval"

definition Math_random :: "random_source \<Rightarrow> nat \<Rightarrow> real" where
  "Math_random rnd k = Rep_unit_interval (rnd k)"

subsection \<open>Data model\<close>

datatype behavior = wander | chase

record BacteriaType =
  t_name :: string
  t_color :: nat
  t_speed :: real
  t_health :: int
  t_points :: int
  t_behavior :: behavior
  t_fact :: string
  t_scale :: real

definition ecoli :: BacteriaType where
  "ecoli = \<lparr>t_name = ''E. coli'', t_color = 0x88ff88, t_speed = 2, t_health = 1,
            t_points = 10, t_behavior = wander,
            t_fact = ''E. coli normally lives harmlessly in your intestines!'',
            t_scale = 4 / 10\<rparr>"

definition streptococcus :: BacteriaType where
  "streptococcus = \<lparr>t_name = ''Streptococcus'', t_color = 0xff88ff, t_speed = 3,
            t_health = 2, t_points = 25, t_behavior = chase,
            t_fact = ''Streptococcus forms chains and can cause strep throat!'',
            t_scale = 35 / 100\<rparr>"

definition BACTERIA_TYPES :: "(string \<times> BacteriaType) list" where
  "BACTERIA_TYPES = [(''ecoli'', ecoli), (''streptococcus'', streptococcus)]"

record Bacteria =
  mesh_position :: vector3
  btype :: BacteriaType
  health :: int
  velocity :: vector3
  targetPosition :: "vector3 option"
  wanderTimer :: real

record Projectile =
  p_position :: vector3
  direction :: vector3
  speed :: real
  createdAt :: int

record Room =
  position :: vector3
  width :: real
  height :: real
  depth :: real
  hasBacteria :: bool

subsection \<open>shoot\<close>

text \<open>
  The look direction is \<^verbatim>\<open>(0, 0, -1)\<close> turned by the camera's quaternion; the turned
  vector is an argument here. The source does not normalise it.
\<close>

definition shoot :: "vector3 \<Rightarrow> vector3 \<Rightarrow> int \<Rightarrow> Projectile list \<Rightarrow> Projectile list" where
  "shoot cameraPosition lookDirection now projectiles =
     projectiles @ [\<lparr>p_position = cameraPosition, direction = lookDirection,
                     speed = 25, createdAt = now\<rparr>]"

subsection \<open>generateLevel\<close>

definition directions :: "vector3 list" where
  "directions = [Vector3 0 0 (- 20), Vector3 20 0 0, Vector3 (- 20) 0 0, Vector3 0 0 (- 40)]"

definition spawnRoom :: Room where
  "spawnRoom = \<lparr>position = Vector3 0 0 0, width = 12, height = 6, depth = 12,
                hasBacteria = False\<rparr>"

fun pushRooms :: "random_source \<Rightarrow> nat \<Rightarrow> vector3 list \<Rightarrow> Room list" where
  "pushRooms rnd k [] = []"
| "pushRooms rnd k (dir # dirs) =
     \<lparr>position = dir,
      width = 10 + Math_random rnd k * 6,
      height = 5 + Math_random rnd (k + 1) * 3,
      depth = 10 + Math_random rnd (k + 2) * 6,
      hasBacteria = True\<rparr> # pushRooms rnd (k + 3) dirs"

definition generateLevel :: "random_source \<Rightarrow> nat \<Rightarrow> Room list \<times> nat" where
  "generateLevel rnd k = (spawnRoom # pushRooms rnd k directions, k + 3 * length directions)"

subsection \<open>spawnBacteriaInRoom and the spawning loop of the mount effect\<close>

definition types :: "string list" where
  "types = map fst BACTERIA_TYPES"

text \<open>
  One iteration draws the type, then the random numbers of the mesh (three flagella
  angles for \<^verbatim>\<open>ecoli\<close>, the chain length otherwise), then the three coordinates and the
  first wander timer.
\<close>

definition spawnOne :: "random_source \<Rightarrow> nat \<Rightarrow> Room \<Rightarrow> Bacteria \<times> nat" where
  "spawnOne rnd k room =
     (let typeKey = types ! nat \<lfloor>Math_random rnd k * real (length types)\<rfloor>;
          ty = the (map_of BACTERIA_TYPES typeKey);
          k1 = (if typeKey = ''ecoli'' then k + 1 + 3 else k + 1 + 1);
          spawnPos = Vector3
            (vx (position room) + (Math_random rnd k1 - 1 / 2) * (width room - 2))
            (1 + Math_random rnd (k1 + 1) * 2)
            (vz (position room) + (Math_random rnd (k1 + 2) - 1 / 2) * (depth room - 2))
      in (\<lparr>mesh_position = spawnPos, btype = ty, health = t_health ty,
           velocity = Vector3 0 0 0, targetPosition = None,
           wanderTimer = Math_random rnd (k1 + 3) * 2\<rparr>, k1 + 4))"

fun spawnLoop :: "random_source \<Rightarrow> nat \<Rightarrow> Room \<Rightarrow> nat \<Rightarrow> Bacteria list \<times> nat" where
  "spawnLoop rnd k room 0 = ([], k)"
| "spawnLoop rnd k room (Suc n) =
     (let (b, k1) = spawnOne rnd k room;
          (bs, k2) = spawnLoop rnd k1 room n
      in (b # bs, k2))"

text \<open>
  The result is the bacteria pushed onto \<^verbatim>\<open>bacteriaRef.current\<close>, the returned
  \<^verbatim>\<open>bacteriaCount\<close> and the next random index.
\<close>

definition spawnBacteriaInRoom :: "random_source \<Rightarrow> nat \<Rightarrow> Room \<Rightarrow> Bacteria list \<times> int \<times> nat" where
  "spawnBacteriaInRoom rnd k room =
     (let bacteriaCount = 3 + \<lfloor>Math_random rnd k * 3\<rfloor>;
          (bs, k1) = spawnLoop rnd (k + 1) room (nat bacteriaCount)
      in (bs, bacteriaCount, k1))"

text \<open>\<^verbatim>\<open>rooms.forEach\<close> of the mount effect: the running \<^verbatim>\<open>bacteriaCount\<close>.\<close>

fun spawnRooms :: "random_source \<Rightarrow> nat \<Rightarrow> Room list \<Rightarrow> Bacteria list \<times> int \<times> nat" where
  "spawnRooms rnd k [] = ([], 0, k)"
| "spawnRooms rnd k (room # rooms) =
     (if hasBacteria room then
        (let (bs, count, k1) = spawnBacteriaInRoom rnd k room;
             (bs', rest, k2) = spawnRooms rnd k1 rooms
         in (bs @ bs', count + rest, k2))
      else spawnRooms rnd k rooms)"

subsection \<open>updateBacteria\<close>

text \<open>
  The choice of a new wander target, shared by the two places of the source that make it
  (with vertical spread 2 in the \<^verbatim>\<open>wander\<close> branch and none in the \<^verbatim>\<open>chase\<close>
  fallback, which draws two coordinates only). The result is the bacterium with its target
  and timer set when the timer has run out or no target is set, and the next random index.
\<close>

definition retargetWander :: "random_source \<Rightarrow> nat \<Rightarrow> Bacteria \<Rightarrow> Bacteria \<times> nat" where
  "retargetWander rnd k b =
     (if wanderTimer b \<le> 0 \<or> targetPosition b = None then
        (b\<lparr>targetPosition := Some (add (mesh_position b)
              (Vector3 ((Math_random rnd k - 1 / 2) * 6)
                       ((Math_random rnd (k + 1) - 1 / 2) * 2)
                       ((Math_random rnd (k + 2) - 1 / 2) * 6))),
            wanderTimer := 2 + Math_random rnd (k + 3) * 2\<rparr>, k + 4)
      else (b, k))"

definition retargetChase :: "random_source \<Rightarrow> nat \<Rightarrow> Bacteria \<Rightarrow> Bacteria \<times> nat" where
  "retargetChase rnd k b =
     (if wanderTimer b \<le> 0 \<or> targetPosition b = None then
        (b\<lparr>targetPosition := Some (add (mesh_position b)
              (Vector3 ((Math_random rnd k - 1 / 2) * 6)
                       0
                       ((Math_random rnd (k + 1) - 1 / 2) * 6))),
            wanderTimer := 2 + Math_random rnd (k + 2) * 2\<rparr>, k + 3)
      else (b, k))"

text \<open>
  The direction towards the target of a bacterium. After either retargeting function a
  target is set; a bacterium without one keeps the zero offset.
\<close>

definition targetDirection :: "Bacteria \<Rightarrow> vector3" where
  "targetDirection b =
     (case targetPosition b of
        Some t \<Rightarrow> normalize3 (sub3 t (mesh_position b))
      | None \<Rightarrow> normalize3 (Vector3 0 0 0))"

text \<open>The velocity update of one live bacterium whose timer has been decremented.\<close>

definition steer :: "random_source \<Rightarrow> nat \<Rightarrow> vector3 \<Rightarrow> Bacteria \<Rightarrow> Bacteria \<times> nat" where
  "steer rnd k playerPos b =
     (case t_behavior (btype b) of
        wander \<Rightarrow>
          (let (b1, k1) = retargetWander rnd k b
           in (b1\<lparr>velocity := lerp (velocity b1)
                   (multiplyScalar (targetDirection b1) (t_speed (btype b1))) (2 / 100)\<rparr>, k1))
      | chase \<Rightarrow>
          (let distToPlayer = distanceTo (mesh_position b) playerPos in
           if distToPlayer < 15 then
             (b\<lparr>velocity := lerp (velocity b)
                  (multiplyScalar (normalize3 (sub3 playerPos (mesh_position b)))
                     (t_speed (btype b))) (5 / 100)\<rparr>, k)
           else
             (let (b1, k1) = retargetChase rnd k b
              in (b1\<lparr>velocity := lerp (velocity b1)
                      (multiplyScalar (targetDirection b1) (t_speed (btype b1) * (1 / 2)))
                      (2 / 100)\<rparr>, k1))))"

text \<open>The body of \<^verbatim>\<open>bacteriaRef.current.forEach\<close> in \<^verbatim>\<open>updateBacteria\<close>.\<close>

definition updateBacterium ::
  "random_source \<Rightarrow> nat \<Rightarrow> vector3 \<Rightarrow> real \<Rightarrow> Bacteria \<Rightarrow> Bacteria \<times> nat" where
  "updateBacterium rnd k playerPos deltaTime b =
     (if health b \<le> 0 then (b, k)
      else
        (let (b1, k1) = steer rnd k playerPos (b\<lparr>wanderTimer := wanderTimer b - deltaTime\<rparr>);
             p = add (mesh_position b1) (multiplyScalar (velocity b1) deltaTime)
         in (b1\<lparr>mesh_position := Vector3 (vx p) (max (1 / 2) (min 5 (vy p))) (vz p)\<rparr>, k1)))"

fun updateBacteria ::
  "random_source \<Rightarrow> nat \<Rightarrow> vector3 \<Rightarrow> real \<Rightarrow> Bacteria list \<Rightarrow> Bacteria list \<times> nat" where
  "updateBacteria rnd k playerPos deltaTime [] = ([], k)"
| "updateBacteria rnd k playerPos deltaTime (b # bs) =
     (let (b', k1) = updateBacterium rnd k playerPos deltaTime b;
          (bs', k2) = updateBacteria rnd k1 playerPos deltaTime bs
      in (b' # bs', k2))"

subsection \<open>updateProjectiles: movement, expiry and the collision pass\<close>

definition moveProjectile :: "real \<Rightarrow> Projectile \<Rightarrow> Projectile" where
  "moveProjectile deltaTime p =
     p\<lparr>p_position := add (p_position p) (multiplyScalar (direction p) (speed p * deltaTime))\<rparr>"

definition expired :: "int \<Rightarrow> Projectile \<Rightarrow> bool" where
  "expired now p \<longleftrightarrow> now - createdAt p > 3000"

text \<open>
  The inner \<^verbatim>\<open>bacteriaRef.current.forEach\<close> for one projectile (already moved): the
  bacteria with their hit points updated, the indices pushed onto
  \<^verbatim>\<open>projectilesToRemove\<close> and those pushed onto \<^verbatim>\<open>bacteriaToRemove\<close>, in order.
\<close>

fun collideBacteria ::
  "Projectile \<Rightarrow> nat \<Rightarrow> nat \<Rightarrow> Bacteria list \<Rightarrow> Bacteria list \<times> nat list \<times> nat list" where
  "collideBacteria p pIndex bIndex [] = ([], [], [])"
| "collideBacteria p pIndex bIndex (b # bs) =
     (let (bs', pr, br) = collideBacteria p pIndex (Suc bIndex) bs in
      if health b \<le> 0 then (b # bs', pr, br)
      else if distanceTo (p_position p) (mesh_position b) < 6 / 10 then
        (b\<lparr>health := health b - 1\<rparr> # bs', pIndex # pr,
         (if health b - 1 \<le> 0 then bIndex # br else br))
      else (b # bs', pr, br))"

text \<open>The outer \<^verbatim>\<open>projectilesRef.current.forEach\<close>.\<close>

fun forEachProjectile ::
  "real \<Rightarrow> int \<Rightarrow> nat \<Rightarrow> Projectile list \<Rightarrow> Bacteria list \<Rightarrow>
   Projectile list \<times> Bacteria list \<times> nat list \<times> nat list" where
  "forEachProjectile deltaTime now pIndex [] bs = ([], bs, [], [])"
| "forEachProjectile deltaTime now pIndex (p # ps) bs =
     (let p' = moveProjectile deltaTime p in
      if expired now p' then
        (let (ps', bs', pr, br) = forEachProjectile deltaTime now (Suc pIndex) ps bs
         in (p' # ps', bs', pIndex # pr, br))
      else
        (let (bs1, pr1, br1) = collideBacteria p' pIndex 0 bs;
             (ps', bs', pr, br) = forEachProjectile deltaTime now (Suc pIndex) ps bs1
         in (p' # ps', bs', pr1 @ pr, br1 @ br)))"

text \<open>
  \<^verbatim>\<open>Array.from(new Set(xs)).sort((a, b) => b - a)\<close>: the distinct indices, largest
  first. \<^verbatim>\<open>splice(index, 1)\<close> removes one element.
\<close>

definition uniqueDescending :: "nat list \<Rightarrow> nat list" where
  "uniqueDescending xs = rev (sort (remdups xs))"

definition splice1 :: "nat \<Rightarrow> 'a list \<Rightarrow> 'a list" where
  "splice1 i xs = take i xs @ drop (Suc i) xs"

fun removeProjectiles :: "nat list \<Rightarrow> Projectile list \<Rightarrow> Projectile list" where
  "removeProjectiles [] ps = ps"
| "removeProjectiles (i # is) ps =
     removeProjectiles is (if i < length ps then splice1 i ps else ps)"

subsection \<open>React state, the closure of the mount effect, and scoring\<close>

text \<open>
  The component's state (\<^verbatim>\<open>useState\<close>) together with the calls made to the two
  callbacks of its props, oldest first.
\<close>

record GameState =
  score :: int
  bacteriaKilled :: int
  totalBacteria :: int
  gameComplete :: bool
  onScoreUpdate_calls :: "int list"
  onComplete_calls :: "int list"

text \<open>
  \<^verbatim>\<open>updateProjectiles\<close> is declared inside \<^verbatim>\<open>useEffect(..., [])\<close>, which runs once on
  mount. The identifiers \<^verbatim>\<open>score\<close>, \<^verbatim>\<open>totalBacteria\<close> and \<^verbatim>\<open>gameComplete\<close> in its body
  are the constants of the render that created the effect; the state setters and the
  argument \<^verbatim>\<open>prev\<close> of an updater act on the current state.
\<close>

record Captured =
  c_score :: int
  c_totalBacteria :: int
  c_gameComplete :: bool

text \<open>The first render: \<^verbatim>\<open>useState(0)\<close>, \<^verbatim>\<open>useState(0)\<close>, \<^verbatim>\<open>useState(false)\<close>.\<close>

definition mountClosure :: Captured where
  "mountClosure = \<lparr>c_score = 0, c_totalBacteria = 0, c_gameComplete = False\<rparr>"

definition initialState :: GameState where
  "initialState = \<lparr>score = 0, bacteriaKilled = 0, totalBacteria = 0, gameComplete = False,
                   onScoreUpdate_calls = [], onComplete_calls = []\<rparr>"

text \<open>
  \<^verbatim>\<open>Math.ceil(totalBacteria * 0.8)\<close>. The double nearest to 0.8 exceeds it by less than
  one part in \<open>2\<^sup>5\<^sup>4\<close>, so for a whole product the floating-point result is that whole
  number, and the ceiling is the one of the exact product.
\<close>

definition completionThreshold :: "int \<Rightarrow> int" where
  "completionThreshold n = \<lceil>real_of_int n * (8 / 10)\<rceil>"

text \<open>
  The state changes for one removed bacterium (lines 601 to 621): \<^verbatim>\<open>setScore\<close>,
  \<^verbatim>\<open>onScoreUpdate\<close>, then the updater given to \<^verbatim>\<open>setBacteriaKilled\<close>.
\<close>

definition scoreKill :: "Captured \<Rightarrow> BacteriaType \<Rightarrow> GameState \<Rightarrow> GameState" where
  "scoreKill c ty s =
     (let newScore = c_score c + t_points ty;
          s1 = s\<lparr>score := newScore,
                 onScoreUpdate_calls := onScoreUpdate_calls s @ [newScore]\<rparr>;
          newCount = bacteriaKilled s1 + 1;
          s2 = (if newCount \<ge> completionThreshold (c_totalBacteria c) \<and> \<not> c_gameComplete c
                then (let bonusScore = newScore + 50
                      in s1\<lparr>gameComplete := True, score := bonusScore,
                            onComplete_calls := onComplete_calls s1 @ [min 100 bonusScore]\<rparr>)
                else s1)
      in s2\<lparr>bacteriaKilled := newCount\<rparr>)"

text \<open>\<^verbatim>\<open>uniqueBacteria.forEach\<close>: scoring and removal, for indices in the given order.\<close>

fun removeBacteria ::
  "Captured \<Rightarrow> nat list \<Rightarrow> Bacteria list \<Rightarrow> GameState \<Rightarrow> Bacteria list \<times> GameState" where
  "removeBacteria c [] bs s = (bs, s)"
| "removeBacteria c (i # is) bs s =
     (if i < length bs
      then removeBacteria c is (splice1 i bs) (scoreKill c (btype (bs ! i)) s)
      else removeBacteria c is bs s)"

definition updateProjectiles ::
  "Captured \<Rightarrow> real \<Rightarrow> int \<Rightarrow> Projectile list \<Rightarrow> Bacteria list \<Rightarrow> GameState \<Rightarrow>
   Projectile list \<times> Bacteria list \<times> GameState" where
  "updateProjectiles c deltaTime now ps bs s =
     (let (ps1, bs1, projectilesToRemove, bacteriaToRemove) =
            forEachProjectile deltaTime now 0 ps bs;
          ps2 = removeProjectiles (uniqueDescending projectilesToRemove) ps1;
          (bs2, s') = removeBacteria c (uniqueDescending bacteriaToRemove) bs1 s
      in (ps2, bs2, s'))"

text \<open>
  The second effect of the component (lines 718 to 728), which React runs after a render
  in which one of its dependencies changed; it reads the state of that render.
\<close>

definition completionEffect :: "GameState \<Rightarrow> GameState" where
  "completionEffect s =
     (if bacteriaKilled s > 0 \<and> totalBacteria s > 0 then
        (if bacteriaKilled s \<ge> completionThreshold (totalBacteria s) \<and> \<not> gameComplete s
         then (let bonusScore = score s + 50
               in s\<lparr>gameComplete := True, score := bonusScore,
                    onComplete_calls := onComplete_calls s @ [min 100 bonusScore]\<rparr>)
         else s)
      else s)"

subsection \<open>The animation loop\<close>

text \<open>
  One frame: \<^verbatim>\<open>updateBacteria\<close>, then \<^verbatim>\<open>updateProjectiles\<close> as the mount effect
  defined it, then the render with its completion effect. The frame delta is clamped to
  0.1; the player's position is that of the camera after \<^verbatim>\<open>updatePlayer\<close>.
\<close>

record World =
  bacteria :: "Bacteria list"
  projectiles :: "Projectile list"
  state :: GameState
  nextRandom :: nat

definition animate :: "random_source \<Rightarrow> vector3 \<Rightarrow> real \<Rightarrow> int \<Rightarrow> World \<Rightarrow> World" where
  "animate rnd playerPos delta now w =
     (let deltaTime = min delta (1 / 10);
          (bs1, k1) = updateBacteria rnd (nextRandom w) playerPos deltaTime (bacteria w);
          (ps2, bs2, s2) = updateProjectiles mountClosure deltaTime now (projectiles w) bs1 (state w)
      in \<lparr>bacteria = bs2, projectiles = ps2, state = completionEffect s2, nextRandom = k1\<rparr>)"

subsection \<open>The mount effect\<close>


subsection \<open>The event loop\<close>

text \<open>
  The component reacts to animation frames (\<^verbatim>\<open>animate\<close>, with the camera position, the
  clock delta and \<^verbatim>\<open>Date.now()\<close>) and to clicks while the pointer is locked
  (\<^verbatim>\<open>shoot\<close>, with the camera position, the look direction and \<^verbatim>\<open>Date.now()\<close>).
\<close>

datatype event = Frame vector3 real int | Click vector3 vector3 int

fun run :: "random_source \<Rightarrow> event list \<Rightarrow> World \<Rightarrow> World" where
  "run rnd [] w = w"
| "run rnd (Frame playerPos delta now # es) w = run rnd es (animate rnd playerPos delta now w)"
| "run rnd (Click cameraPosition lookDirection now # es) w =
     run rnd es (w\<lparr>projectiles := shoot cameraPosition lookDirection now (projectiles w)\<rparr>)"

section \<open>Vocabulary of the properties\<close>


text \<open>
  What the spawning loop establishes for a bacterium placed in a room: one of the two
  types with that type's hit points, at rest, at a height from 1 to 3, and horizontally
  within the room's extents less a margin of 1 on each side.
\<close>

definition spawnedIn :: "Room \<Rightarrow> Bacteria \<Rightarrow> bool" where
  "spawnedIn room b \<longleftrightarrow>
     (btype b = ecoli \<or> btype b = streptococcus) \<and>
     health b = t_health (btype b) \<and> velocity b = Vector3 0 0 0 \<and>
     1 \<le> vy (mesh_position b) \<and> vy (mesh_position b) \<le> 3 \<and>
     (2 \<le> width room \<longrightarrow>
        \<bar>vx (mesh_position b) - vx (position room)\<bar> \<le> (width room - 2) / 2) \<and>
     (2 \<le> depth room \<longrightarrow>
        \<bar>vz (mesh_position b) - vz (position room)\<bar> \<le> (depth room - 2) / 2)"

text \<open>
  The bound of the velocity of a bacterium by the base speed of its type, with the length
  taken over the reals.
\<close>

definition speedBounded :: "Bacteria \<Rightarrow> bool" where
  "speedBounded b \<longleftrightarrow> 0 \<le> t_speed (btype b) \<and> length3 (velocity b) \<le> t_speed (btype b)"

text \<open>
  The test of the collision loop for a projectile at its moved position, and what the
  loop body does to one bacterium.
\<close>

definition inRange :: "Projectile \<Rightarrow> Bacteria \<Rightarrow> bool" where
  "inRange p b \<longleftrightarrow> distanceTo (p_position p) (mesh_position b) < 6 / 10"

definition hitBy :: "Projectile \<Rightarrow> Bacteria \<Rightarrow> bool" where
  "hitBy p b \<longleftrightarrow> 0 < health b \<and> inRange p b"

definition damage :: "Projectile \<Rightarrow> Bacteria \<Rightarrow> Bacteria" where
  "damage p b = (if hitBy p b then b\<lparr>health := health b - 1\<rparr> else b)"

text \<open>The projectiles that reach the collision loop in a pass, at their moved positions.\<close>

definition colliding :: "real \<Rightarrow> int \<Rightarrow> Projectile list \<Rightarrow> Projectile list" where
  "colliding deltaTime now ps =
     filter (\<lambda>p. \<not> expired now p) (map (moveProjectile deltaTime) ps)"

text \<open>
  The bacteria as the collision loop of the projectile of index \<open>j\<close> finds them in a pass,
  and the test that this projectile passes when it is neither expired nor hits any of them.
\<close>

definition bacteriaBefore ::
  "real \<Rightarrow> int \<Rightarrow> Projectile list \<Rightarrow> Bacteria list \<Rightarrow> nat \<Rightarrow> Bacteria list" where
  "bacteriaBefore deltaTime now ps bs j =
     foldl (\<lambda>bs p. map (damage p) bs) bs (colliding deltaTime now (take j ps))"

definition stays :: "real \<Rightarrow> int \<Rightarrow> Projectile list \<Rightarrow> Bacteria list \<Rightarrow> nat \<Rightarrow> bool" where
  "stays deltaTime now ps bs j \<longleftrightarrow>
     \<not> expired now (moveProjectile deltaTime (ps ! j)) \<and>
     (\<forall>b \<in> set (bacteriaBefore deltaTime now ps bs j).
        \<not> hitBy (moveProjectile deltaTime (ps ! j)) b)"

section \<open>Worked examples\<close>

text \<open>The generator whose every draw is one half.\<close>

definition half :: unit_interval where
  "half = Abs_unit_interval (1 / 2)"



text \<open>
  A chasing bacterium far from the origin, on its way to a target three units ahead, and
  the same bacterium one unit from the origin.
\<close>

definition farChaser :: Bacteria where
  "farChaser = \<lparr>mesh_position = Vector3 16 1 0, btype = streptococcus, health = 2,
                 velocity = Vector3 0 0 0, targetPosition = Some (Vector3 16 1 3),
                 wanderTimer = 1\<rparr>"

definition nearChaser :: Bacteria where
  "nearChaser = farChaser\<lparr>mesh_position := Vector3 1 1 0\<rparr>"

text \<open>
  A bacterium of a given type as the spawner makes it; the same at rest on its own
  target with a given time on its timer; an antibody flying along the negative z axis.
\<close>

definition cellAt :: "vector3 \<Rightarrow> BacteriaType \<Rightarrow> Bacteria" where
  "cellAt pos ty = \<lparr>mesh_position = pos, btype = ty, health = t_health ty,
                    velocity = Vector3 0 0 0, targetPosition = None, wanderTimer = 1\<rparr>"

definition settled :: "vector3 \<Rightarrow> BacteriaType \<Rightarrow> real \<Rightarrow> Bacteria" where
  "settled pos ty t = (cellAt pos ty)\<lparr>targetPosition := Some pos, wanderTimer := t\<rparr>"

definition antibody :: "vector3 \<Rightarrow> int \<Rightarrow> Projectile" where
  "antibody pos t = \<lparr>p_position = pos, direction = Vector3 0 0 (- 1), speed = 25,
                     createdAt = t\<rparr>"

text \<open>
  A game with twelve bacteria, none killed yet. A streptococcus rests at the origin of
  the floor plan and an E. coli three units to its right; ten more E. coli rest in a row
  twenty units away. Two antibodies are one frame away from the streptococcus and a third
  is two frames away from the E. coli. The player stands 17.5 units back. \<open>world1\<close> and
  \<open>world2\<close> are the worlds after the first and after the second frame.
\<close>

definition player0 :: vector3 where
  "player0 = Vector3 3 1 (35 / 2)"

definition bystanders :: "real \<Rightarrow> Bacteria list" where
  "bystanders t = map (\<lambda>z. settled (Vector3 20 1 z) ecoli t) [1, 2, 3, 4, 5, 6, 7, 8, 9, 10]"

definition world0 :: World where
  "world0 = \<lparr>bacteria = settled (Vector3 0 1 0) streptococcus 3 #
                        settled (Vector3 3 1 0) ecoli 3 # bystanders 3,
             projectiles = [antibody (Vector3 0 1 (5 / 2)) 0, antibody (Vector3 0 1 (5 / 2)) 0,
                            antibody (Vector3 3 1 5) 0],
             state = initialState\<lparr>totalBacteria := 12\<rparr>, nextRandom = 0\<rparr>"

definition world1 :: World where
  "world1 = \<lparr>bacteria = settled (Vector3 3 1 0) ecoli (29 / 10) # bystanders (29 / 10),
             projectiles = [antibody (Vector3 3 1 (5 / 2)) 0],
             state = \<lparr>score = 75, bacteriaKilled = 1, totalBacteria = 12, gameComplete = True,
                      onScoreUpdate_calls = [25], onComplete_calls = [75]\<rparr>,
             nextRandom = 0\<rparr>"

definition world2 :: World where
  "world2 = \<lparr>bacteria = bystanders (14 / 5), projectiles = [],
             state = \<lparr>score = 60, bacteriaKilled = 2, totalBacteria = 12, gameComplete = True,
                      onScoreUpdate_calls = [25, 10], onComplete_calls = [75, 60]\<rparr>,
             nextRandom = 0\<rparr>"

text \<open>A bacterium that has lost its hit points, and two E. coli within one hit radius.\<close>

definition deadCell :: Bacteria where
  "deadCell = (cellAt (Vector3 0 1 0) ecoli)\<lparr>health := 0\<rparr>"

definition closePair :: "Bacteria list" where
  "closePair = [cellAt (Vector3 0 1 0) ecoli, cellAt (Vector3 (1 / 10) 1 0) ecoli]"

text \<open>An E. coli drifting along x that has arrived exactly at its wander target.\<close>

definition arrivedCell :: Bacteria where
  "arrivedCell = (cellAt (Vector3 1 1 1) ecoli)
     \<lparr>velocity := Vector3 1 0 0, targetPosition := Some (Vector3 1 1 1)\<rparr>"

text \<open>
  The generator whose second draw is five sixths and whose every other draw is one half,
  and a chasing bacterium as the spawner makes it, sixteen units from the origin.
\<close>

definition axisDraws :: random_source where
  "axisDraws k = Abs_unit_interval (if k = 1 then 5 / 6 else 1 / 2)"

definition freshChaser :: Bacteria where
  "freshChaser = cellAt (Vector3 16 1 0) streptococcus"

section \<open>Properties\<close>

subsection \<open>Random draws\<close>

lemma Math_random_range: "0 \<le> Math_random rnd k \<and> Math_random rnd k < 1"
  using Rep_unit_interval [of "rnd k"] by (simp add: Math_random_def)

lemma Math_random_nonneg: "0 \<le> Math_random rnd k"
  by (simp add: Math_random_range)

lemma Math_random_less: "Math_random rnd k < 1"
  by (simp add: Math_random_range)

lemma Math_random_half: "Math_random (\<lambda>_. half) k = 1 / 2"
  by (simp add: Math_random_def half_def Abs_unit_interval_inverse)

subsection \<open>Level generation\<close>

lemma pushRooms_length: "length (pushRooms rnd k dirs) = length dirs"
  by (induction dirs arbitrary: k) simp_all

lemma pushRooms_position: "map position (pushRooms rnd k dirs) = dirs"
  by (induction dirs arbitrary: k) simp_all

lemma pushRooms_ranges:
  "r \<in> set (pushRooms rnd k dirs) \<Longrightarrow>
     10 \<le> width r \<and> width r \<le> 16 \<and> 5 \<le> height r \<and> height r \<le> 8 \<and>
     10 \<le> depth r \<and> depth r \<le> 16 \<and> hasBacteria r"
proof (induction dirs arbitrary: k)
  case Nil
  then show ?case by simp
next
  case (Cons dir dirs)
  have a: "0 \<le> Math_random rnd k \<and> Math_random rnd k < 1"
    and b: "0 \<le> Math_random rnd (k + 1) \<and> Math_random rnd (k + 1) < 1"
    and c: "0 \<le> Math_random rnd (k + 2) \<and> Math_random rnd (k + 2) < 1"
    by (rule Math_random_range)+
  from Cons.prems have "r = \<lparr>position = dir, width = 10 + Math_random rnd k * 6,
      height = 5 + Math_random rnd (k + 1) * 3, depth = 10 + Math_random rnd (k + 2) * 6,
      hasBacteria = True\<rparr> \<or> r \<in> set (pushRooms rnd (k + 3) dirs)"
    by simp
  then show ?case
  proof
    assume "r = \<lparr>position = dir, width = 10 + Math_random rnd k * 6,
      height = 5 + Math_random rnd (k + 1) * 3, depth = 10 + Math_random rnd (k + 2) * 6,
      hasBacteria = True\<rparr>"
    then show ?thesis using a b c by simp
  next
    assume "r \<in> set (pushRooms rnd (k + 3) dirs)"
    then show ?thesis by (rule Cons.IH)
  qed
qed

text \<open>
  C5: every generated level has exactly five rooms. The first is the spawn room at the
  origin, without bacteria; the other four stand at the fixed offsets forward, right, left
  and far forward, each with width between 10 and 16, height between 5 and 8, depth between
  10 and 16, and with bacteria. \<^const>\<open>generateLevel\<close> is a total function with no error
  result, so generation cannot fail.
\<close>

theorem generateLevel_five_rooms:
  "length (fst (generateLevel rnd k)) = 5 \<and>
   hd (fst (generateLevel rnd k)) = spawnRoom \<and>
   position spawnRoom = Vector3 0 0 0 \<and> \<not> hasBacteria spawnRoom \<and>
   map position (tl (fst (generateLevel rnd k))) =
     [Vector3 0 0 (- 20), Vector3 20 0 0, Vector3 (- 20) 0 0, Vector3 0 0 (- 40)] \<and>
   (\<forall>r \<in> set (tl (fst (generateLevel rnd k))).
      10 \<le> width r \<and> width r \<le> 16 \<and> 5 \<le> height r \<and> height r \<le> 8 \<and>
      10 \<le> depth r \<and> depth r \<le> 16 \<and> hasBacteria r)"
proof -
  have "length (fst (generateLevel rnd k)) = 5"
    by (simp add: generateLevel_def pushRooms_length directions_def)
  moreover have "hd (fst (generateLevel rnd k)) = spawnRoom"
    by (simp add: generateLevel_def)
  moreover have "position spawnRoom = Vector3 0 0 0 \<and> \<not> hasBacteria spawnRoom"
    by (simp add: spawnRoom_def)
  moreover have "map position (tl (fst (generateLevel rnd k))) =
     [Vector3 0 0 (- 20), Vector3 20 0 0, Vector3 (- 20) 0 0, Vector3 0 0 (- 40)]"
    by (simp only: generateLevel_def fst_conv list.sel pushRooms_position directions_def)
  moreover have "\<forall>r \<in> set (tl (fst (generateLevel rnd k))).
      10 \<le> width r \<and> width r \<le> 16 \<and> 5 \<le> height r \<and> height r \<le> 8 \<and>
      10 \<le> depth r \<and> depth r \<le> 16 \<and> hasBacteria r"
    using pushRooms_ranges by (simp add: generateLevel_def)
  ultimately show ?thesis by blast
qed

theorem generateLevel_five_rooms_witness:
  "fst (generateLevel (\<lambda>_. half) 0) =
     [spawnRoom,
      \<lparr>position = Vector3 0 0 (- 20), width = 13, height = 13 / 2, depth = 13, hasBacteria = True\<rparr>,
      \<lparr>position = Vector3 20 0 0, width = 13, height = 13 / 2, depth = 13, hasBacteria = True\<rparr>,
      \<lparr>position = Vector3 (- 20) 0 0, width = 13, height = 13 / 2, depth = 13, hasBacteria = True\<rparr>,
      \<lparr>position = Vector3 0 0 (- 40), width = 13, height = 13 / 2, depth = 13, hasBacteria = True\<rparr>] \<and>
   length (fst (generateLevel (\<lambda>_. half) 0)) = 5 \<and>
   list_all (\<lambda>r. 10 \<le> width r \<and> width r \<le> 16 \<and> 5 \<le> height r \<and> height r \<le> 8 \<and>
      10 \<le> depth r \<and> depth r \<le> 16 \<and> hasBacteria r) (tl (fst (generateLevel (\<lambda>_. half) 0)))"
  using generateLevel_five_rooms [of "\<lambda>_. half" 0]
  by (simp add: generateLevel_def directions_def Math_random_half list_all_iff)

subsection \<open>Spawning\<close>

lemma types_eq: "types = [''ecoli'', ''streptococcus'']"
  by (simp add: types_def BACTERIA_TYPES_def)

lemma floor_twice_low: "0 \<le> (r::real) \<Longrightarrow> r < 1 / 2 \<Longrightarrow> \<lfloor>r * 2\<rfloor> = 0"
  by (simp add: floor_eq_iff)

lemma floor_twice_high: "1 / 2 \<le> (r::real) \<Longrightarrow> r < 1 \<Longrightarrow> \<lfloor>r * 2\<rfloor> = 1"
  by (simp add: floor_eq_iff)

lemma spawnOne_type:
  "btype (fst (spawnOne rnd k room)) =
     (if Math_random rnd k < 1 / 2 then ecoli else streptococcus)"
proof (cases "Math_random rnd k < 1 / 2")
  case True
  then have "\<lfloor>Math_random rnd k * 2\<rfloor> = 0"
    using Math_random_nonneg by (simp add: floor_twice_low)
  then show ?thesis using True
    by (simp add: spawnOne_def Let_def types_eq BACTERIA_TYPES_def)
next
  case False
  then have "\<lfloor>Math_random rnd k * 2\<rfloor> = 1"
    using Math_random_less by (simp add: floor_twice_high)
  then show ?thesis using False
    by (simp add: spawnOne_def Let_def types_eq BACTERIA_TYPES_def)
qed

lemma centred_offset:
  assumes "0 \<le> (r::real)" "r < 1" "0 \<le> w"
  shows "\<bar>(r - 1 / 2) * w\<bar> \<le> w / 2"
proof -
  have "\<bar>r - 1 / 2\<bar> \<le> 1 / 2" using assms by linarith
  then have "\<bar>r - 1 / 2\<bar> * w \<le> 1 / 2 * w" using assms(3) by (rule mult_right_mono)
  then show ?thesis using assms(3) by (simp add: abs_mult)
qed

lemma spawnOne_spawnedIn: "spawnedIn room (fst (spawnOne rnd k room))"
proof -
  let ?b = "fst (spawnOne rnd k room)"
  have ty: "btype ?b = ecoli \<or> btype ?b = streptococcus"
    by (simp add: spawnOne_type)
  have h: "health ?b = t_health (btype ?b) \<and> velocity ?b = Vector3 0 0 0"
    by (simp add: spawnOne_def Let_def)
  have y: "1 \<le> vy (mesh_position ?b) \<and> vy (mesh_position ?b) \<le> 3"
    by (simp add: spawnOne_def Let_def Math_random_nonneg less_imp_le [OF Math_random_less])
  have x: "\<bar>vx (mesh_position ?b) - vx (position room)\<bar> \<le> (width room - 2) / 2"
    if "2 \<le> width room"
    using that centred_offset [OF Math_random_nonneg Math_random_less, of "width room - 2"]
    by (simp add: spawnOne_def Let_def)
  have z: "\<bar>vz (mesh_position ?b) - vz (position room)\<bar> \<le> (depth room - 2) / 2"
    if "2 \<le> depth room"
    using that centred_offset [OF Math_random_nonneg Math_random_less, of "depth room - 2"]
    by (simp add: spawnOne_def Let_def)
  show ?thesis unfolding spawnedIn_def using ty h y x z by blast
qed


lemma spawnLoop_spawnedIn: "b \<in> set (fst (spawnLoop rnd k room n)) \<Longrightarrow> spawnedIn room b"
proof (induction n arbitrary: k)
  case 0
  then show ?case by simp
next
  case (Suc n)
  from Suc.prems have "b = fst (spawnOne rnd k room) \<or>
      b \<in> set (fst (spawnLoop rnd (snd (spawnOne rnd k room)) room n))"
    by (simp add: split_def Let_def)
  then show ?case using spawnOne_spawnedIn Suc.IH by blast
qed



lemma spawnBacteriaInRoom_spawnedIn:
  "b \<in> set (fst (spawnBacteriaInRoom rnd k room)) \<Longrightarrow> spawnedIn room b"
  by (simp add: spawnBacteriaInRoom_def Let_def split_def spawnLoop_spawnedIn)









subsection \<open>Vector arithmetic\<close>

lemma lengthSq_nonneg: "0 \<le> lengthSq a"
  by (simp add: lengthSq_def)

lemma length3_nonneg: "0 \<le> length3 a"
  by (simp add: length3_def lengthSq_nonneg)

lemma length3_zero: "length3 (Vector3 0 0 0) = 0"
  by (simp add: length3_def lengthSq_def)

lemma length3_eq_nested:
  "length3 a = sqrt ((sqrt ((vx a)\<^sup>2 + (vy a)\<^sup>2))\<^sup>2 + (vz a)\<^sup>2)"
  by (simp add: length3_def lengthSq_def power2_eq_square)

lemma length3_add: "length3 (add a b) \<le> length3 a + length3 b"
proof -
  let ?A = "sqrt ((vx a)\<^sup>2 + (vy a)\<^sup>2)"
  let ?B = "sqrt ((vx b)\<^sup>2 + (vy b)\<^sup>2)"
  let ?C = "sqrt ((vx a + vx b)\<^sup>2 + (vy a + vy b)\<^sup>2)"
  have plane: "?C \<le> ?A + ?B"
    by (rule real_sqrt_sum_squares_triangle_ineq)
  have nonneg: "0 \<le> ?C" by simp
  have "?C\<^sup>2 \<le> (?A + ?B)\<^sup>2"
    using plane nonneg by (rule power_mono)
  then have "sqrt (?C\<^sup>2 + (vz a + vz b)\<^sup>2) \<le> sqrt ((?A + ?B)\<^sup>2 + (vz a + vz b)\<^sup>2)"
    by simp
  also have "\<dots> \<le> sqrt (?A\<^sup>2 + (vz a)\<^sup>2) + sqrt (?B\<^sup>2 + (vz b)\<^sup>2)"
    by (rule real_sqrt_sum_squares_triangle_ineq)
  finally show ?thesis
    by (simp add: length3_eq_nested add_def)
qed

lemma length3_multiplyScalar: "length3 (multiplyScalar a s) = \<bar>s\<bar> * length3 a"
proof -
  have "lengthSq (multiplyScalar a s) = s\<^sup>2 * lengthSq a"
    by (simp add: lengthSq_def multiplyScalar_def power2_eq_square algebra_simps)
  then show ?thesis
    by (simp add: length3_def real_sqrt_mult)
qed

lemma length3_normalize3: "length3 (normalize3 a) = (if length3 a = 0 then 0 else 1)"
proof (cases "length3 a = 0")
  case True
  then show ?thesis
    by (simp add: normalize3_def divideScalar_def length3_multiplyScalar)
next
  case False
  then have "0 < length3 a" using length3_nonneg [of a] by linarith
  then show ?thesis
    by (simp add: normalize3_def divideScalar_def length3_multiplyScalar)
qed

lemma length3_normalize3_le: "length3 (normalize3 a) \<le> 1"
  by (simp add: length3_normalize3)

lemma lerp_eq_add:
  "lerp a v alpha = add (multiplyScalar a (1 - alpha)) (multiplyScalar v alpha)"
  by (simp add: lerp_def add_def multiplyScalar_def algebra_simps)

lemma length3_lerp:
  assumes "0 \<le> alpha" "alpha \<le> 1"
  shows "length3 (lerp a v alpha) \<le> (1 - alpha) * length3 a + alpha * length3 v"
proof -
  have "length3 (lerp a v alpha) \<le>
      length3 (multiplyScalar a (1 - alpha)) + length3 (multiplyScalar v alpha)"
    unfolding lerp_eq_add by (rule length3_add)
  then show ?thesis using assms by (simp add: length3_multiplyScalar)
qed

text \<open>
  Smoothing towards a direction of length at most one, scaled by a speed no greater
  than the bound, keeps the velocity within the bound.
\<close>

lemma length3_lerp_bounded:
  assumes "0 \<le> alpha" "alpha \<le> 1" "length3 v \<le> c" "length3 d \<le> 1" "0 \<le> s" "s \<le> c"
  shows "length3 (lerp v (multiplyScalar d s) alpha) \<le> c"
proof -
  have "length3 (multiplyScalar d s) = s * length3 d"
    using assms(5) by (simp add: length3_multiplyScalar)
  also have "\<dots> \<le> s * 1"
    using assms(4,5) by (rule mult_left_mono)
  finally have t: "length3 (multiplyScalar d s) \<le> c"
    using assms(6) by simp
  have "length3 (lerp v (multiplyScalar d s) alpha) \<le>
      (1 - alpha) * length3 v + alpha * length3 (multiplyScalar d s)"
    using assms(1,2) by (rule length3_lerp)
  also have "\<dots> \<le> (1 - alpha) * c + alpha * c"
    using assms(1,2,3) t by (intro add_mono mult_left_mono) simp_all
  also have "\<dots> = c" by (simp add: algebra_simps)
  finally show ?thesis .
qed

lemma distanceTo_less_iff:
  "distanceTo a b < r \<longleftrightarrow> 0 < r \<and> distanceToSquared a b < r * r"
proof (cases "0 < r")
  case True
  have nn: "0 \<le> distanceToSquared a b"
    by (simp add: distanceToSquared_def lengthSq_nonneg)
  have "sqrt (distanceToSquared a b) < sqrt (r\<^sup>2) \<longleftrightarrow> distanceToSquared a b < r\<^sup>2"
    by (rule real_sqrt_less_iff)
  then show ?thesis using True by (simp add: distanceTo_def power2_eq_square)
next
  case False
  have "0 \<le> distanceTo a b"
    by (simp add: distanceTo_def distanceToSquared_def lengthSq_nonneg)
  then show ?thesis using False by linarith
qed

subsection \<open>Steering keeps the velocity within the type's speed\<close>

lemma retargetWander_same:
  "btype (fst (retargetWander rnd k b)) = btype b \<and>
   velocity (fst (retargetWander rnd k b)) = velocity b \<and>
   health (fst (retargetWander rnd k b)) = health b \<and>
   mesh_position (fst (retargetWander rnd k b)) = mesh_position b"
  by (simp add: retargetWander_def)

lemma retargetChase_same:
  "btype (fst (retargetChase rnd k b)) = btype b \<and>
   velocity (fst (retargetChase rnd k b)) = velocity b \<and>
   health (fst (retargetChase rnd k b)) = health b \<and>
   mesh_position (fst (retargetChase rnd k b)) = mesh_position b"
  by (simp add: retargetChase_def)

lemma length3_targetDirection: "length3 (targetDirection b) \<le> 1"
  by (simp add: targetDirection_def length3_normalize3_le split: option.split)

lemma steer_same:
  "btype (fst (steer rnd k playerPos b)) = btype b \<and>
   health (fst (steer rnd k playerPos b)) = health b \<and>
   mesh_position (fst (steer rnd k playerPos b)) = mesh_position b"
  by (simp add: steer_def Let_def split_def retargetWander_same retargetChase_same
      split: behavior.split)

lemma steer_speedBounded:
  assumes "speedBounded b"
  shows "speedBounded (fst (steer rnd k playerPos b))"
proof -
  let ?c = "t_speed (btype b)"
  have c: "0 \<le> ?c" and v: "length3 (velocity b) \<le> ?c"
    using assms by (simp_all add: speedBounded_def)
  have smooth: "length3 (lerp (velocity b) (multiplyScalar d s) alpha) \<le> ?c"
    if "0 \<le> alpha" "alpha \<le> 1" "length3 d \<le> 1" "0 \<le> s" "s \<le> ?c" for d s alpha
    using that(1,2) v that(3,4,5) by (rule length3_lerp_bounded)
  show ?thesis
  proof (cases "t_behavior (btype b)")
    case wander
    have "length3 (lerp (velocity b)
        (multiplyScalar (targetDirection (fst (retargetWander rnd k b))) ?c) (2 / 100)) \<le> ?c"
      using c by (intro smooth length3_targetDirection) simp_all
    then show ?thesis using wander c
      by (simp add: steer_def Let_def split_def speedBounded_def retargetWander_same)
  next
    case chase
    have near: "length3 (lerp (velocity b)
        (multiplyScalar (normalize3 (sub3 playerPos (mesh_position b))) ?c) (5 / 100)) \<le> ?c"
      using c by (intro smooth length3_normalize3_le) simp_all
    have far: "length3 (lerp (velocity b)
        (multiplyScalar (targetDirection (fst (retargetChase rnd k b))) (?c * (1 / 2)))
        (2 / 100)) \<le> ?c"
      using c by (intro smooth length3_targetDirection) simp_all
    show ?thesis using chase c near far
      by (simp add: steer_def Let_def split_def speedBounded_def retargetChase_same)
  qed
qed

lemma updateBacterium_speedBounded:
  assumes "speedBounded b"
  shows "speedBounded (fst (updateBacterium rnd k playerPos deltaTime b))"
proof (cases "health b \<le> 0")
  case True
  then show ?thesis using assms by (simp add: updateBacterium_def)
next
  case False
  let ?b0 = "b\<lparr>wanderTimer := wanderTimer b - deltaTime\<rparr>"
  have "speedBounded ?b0" using assms by (simp add: speedBounded_def)
  then have "speedBounded (fst (steer rnd k playerPos ?b0))"
    by (rule steer_speedBounded)
  then show ?thesis using False
    by (simp add: updateBacterium_def Let_def split_def speedBounded_def)
qed

lemma updateBacteria_speedBounded:
  "\<forall>b \<in> set bs. speedBounded b \<Longrightarrow>
   \<forall>b \<in> set (fst (updateBacteria rnd k playerPos deltaTime bs)). speedBounded b"
proof (induction bs arbitrary: k)
  case Nil
  then show ?case by simp
next
  case (Cons b bs)
  from Cons.prems have "speedBounded b" and rest: "\<forall>x \<in> set bs. speedBounded x"
    by simp_all
  then show ?case
    using updateBacterium_speedBounded [of b rnd k playerPos deltaTime]
      Cons.IH [OF rest, of "snd (updateBacterium rnd k playerPos deltaTime b)"]
    by (simp add: split_def Let_def)
qed

lemma spawnOne_speedBounded: "speedBounded (fst (spawnOne rnd k room))"
proof -
  have "0 \<le> t_speed (btype (fst (spawnOne rnd k room)))"
    by (simp add: spawnOne_type ecoli_def streptococcus_def)
  moreover have "velocity (fst (spawnOne rnd k room)) = Vector3 0 0 0"
    by (simp add: spawnOne_def Let_def)
  ultimately show ?thesis by (simp add: speedBounded_def length3_zero)
qed

subsection \<open>The chase behaviour\<close>

lemma retargetChase_target:
  "\<exists>t. targetPosition (fst (retargetChase rnd k b)) = Some t \<and>
     (if wanderTimer b \<le> 0 \<or> targetPosition b = None
      then t = add (mesh_position b)
             (Vector3 ((Math_random rnd k - 1 / 2) * 6) 0
                ((Math_random rnd (k + 1) - 1 / 2) * 6)) \<and>
           wanderTimer (fst (retargetChase rnd k b)) = 2 + Math_random rnd (k + 2) * 2 \<and>
           snd (retargetChase rnd k b) = k + 3 \<and>
           \<bar>vx t - vx (mesh_position b)\<bar> \<le> 3 \<and> vy t = vy (mesh_position b) \<and>
           \<bar>vz t - vz (mesh_position b)\<bar> \<le> 3 \<and>
           2 \<le> wanderTimer (fst (retargetChase rnd k b)) \<and>
           wanderTimer (fst (retargetChase rnd k b)) \<le> 4
      else targetPosition b = Some t \<and>
           wanderTimer (fst (retargetChase rnd k b)) = wanderTimer b \<and>
           snd (retargetChase rnd k b) = k)"
proof (cases "wanderTimer b \<le> 0 \<or> targetPosition b = None")
  case True
  have x: "\<bar>(Math_random rnd k - 1 / 2) * 6\<bar> \<le> 6 / 2"
    by (rule centred_offset [OF Math_random_nonneg Math_random_less]) simp
  have z: "\<bar>(Math_random rnd (k + 1) - 1 / 2) * 6\<bar> \<le> 6 / 2"
    by (rule centred_offset [OF Math_random_nonneg Math_random_less]) simp
  have t: "0 \<le> Math_random rnd (k + 2) \<and> Math_random rnd (k + 2) < 1"
    by (rule Math_random_range)
  show ?thesis using True x z t
    by (simp add: retargetChase_def add_def)
next
  case False
  then show ?thesis by (auto simp: retargetChase_def)
qed

text \<open>
  C7: a live bacterium of a chasing type whose distance to the player is below 15 has its
  velocity smoothed with factor 0.05 towards the direction to the player times the type's
  speed; its target and timer are not re-chosen and no random number is drawn. Otherwise
  it has a target: when the timer has run out or no target was set, the target is re-chosen
  as the position plus six times the first draw less one half along x, nothing along y,
  and six times the second draw less one half along z (so at most 3 units away
  horizontally), the timer is set to 2 plus twice the third draw (so from 2 to 4), and
  three numbers are drawn; else target and timer stay and nothing is drawn. Its velocity
  is then smoothed with factor 0.02 towards the direction to that target times half the
  type's speed. In both cases the position advances by the new velocity times the frame
  delta, with the height kept between 0.5 and 5.
\<close>

theorem chase_near_and_far:
  assumes "0 < health b" and "t_behavior (btype b) = chase"
  shows "(distanceTo (mesh_position b) playerPos < 15 \<longrightarrow>
      velocity (fst (updateBacterium rnd k playerPos deltaTime b)) =
        lerp (velocity b)
          (multiplyScalar (normalize3 (sub3 playerPos (mesh_position b))) (t_speed (btype b)))
          (5 / 100) \<and>
      targetPosition (fst (updateBacterium rnd k playerPos deltaTime b)) = targetPosition b \<and>
      wanderTimer (fst (updateBacterium rnd k playerPos deltaTime b)) =
        wanderTimer b - deltaTime \<and>
      snd (updateBacterium rnd k playerPos deltaTime b) = k) \<and>
    (\<not> distanceTo (mesh_position b) playerPos < 15 \<longrightarrow>
      (\<exists>t. targetPosition (fst (updateBacterium rnd k playerPos deltaTime b)) = Some t \<and>
        velocity (fst (updateBacterium rnd k playerPos deltaTime b)) =
          lerp (velocity b)
            (multiplyScalar (normalize3 (sub3 t (mesh_position b))) (t_speed (btype b) * (1 / 2)))
            (2 / 100) \<and>
        (if wanderTimer b - deltaTime \<le> 0 \<or> targetPosition b = None
         then t = add (mesh_position b)
                (Vector3 ((Math_random rnd k - 1 / 2) * 6) 0
                   ((Math_random rnd (k + 1) - 1 / 2) * 6)) \<and>
              wanderTimer (fst (updateBacterium rnd k playerPos deltaTime b)) =
                2 + Math_random rnd (k + 2) * 2 \<and>
              snd (updateBacterium rnd k playerPos deltaTime b) = k + 3 \<and>
              \<bar>vx t - vx (mesh_position b)\<bar> \<le> 3 \<and> vy t = vy (mesh_position b) \<and>
              \<bar>vz t - vz (mesh_position b)\<bar> \<le> 3 \<and>
              2 \<le> wanderTimer (fst (updateBacterium rnd k playerPos deltaTime b)) \<and>
              wanderTimer (fst (updateBacterium rnd k playerPos deltaTime b)) \<le> 4
         else targetPosition b = Some t \<and>
              wanderTimer (fst (updateBacterium rnd k playerPos deltaTime b)) =
                wanderTimer b - deltaTime \<and>
              snd (updateBacterium rnd k playerPos deltaTime b) = k))) \<and>
    mesh_position (fst (updateBacterium rnd k playerPos deltaTime b)) =
      Vector3
        (vx (mesh_position b) +
           vx (velocity (fst (updateBacterium rnd k playerPos deltaTime b))) * deltaTime)
        (max (1 / 2) (min 5 (vy (mesh_position b) +
           vy (velocity (fst (updateBacterium rnd k playerPos deltaTime b))) * deltaTime)))
        (vz (mesh_position b) +
           vz (velocity (fst (updateBacterium rnd k playerPos deltaTime b))) * deltaTime)"
proof (intro conjI impI)
  assume near: "distanceTo (mesh_position b) playerPos < 15"
  show "velocity (fst (updateBacterium rnd k playerPos deltaTime b)) =
        lerp (velocity b)
          (multiplyScalar (normalize3 (sub3 playerPos (mesh_position b))) (t_speed (btype b)))
          (5 / 100)"
    using assms near by (simp add: updateBacterium_def steer_def Let_def split_def)
  show "targetPosition (fst (updateBacterium rnd k playerPos deltaTime b)) = targetPosition b"
    using assms near by (simp add: updateBacterium_def steer_def Let_def split_def)
  show "wanderTimer (fst (updateBacterium rnd k playerPos deltaTime b)) =
        wanderTimer b - deltaTime"
    using assms near by (simp add: updateBacterium_def steer_def Let_def split_def)
  show "snd (updateBacterium rnd k playerPos deltaTime b) = k"
    using assms near by (simp add: updateBacterium_def steer_def Let_def split_def)
next
  assume far: "\<not> distanceTo (mesh_position b) playerPos < 15"
  let ?b0 = "b\<lparr>wanderTimer := wanderTimer b - deltaTime\<rparr>"
  let ?b1 = "fst (retargetChase rnd k ?b0)"
  let ?b' = "fst (updateBacterium rnd k playerPos deltaTime b)"
  let ?k' = "snd (updateBacterium rnd k playerPos deltaTime b)"
  let ?new = "add (mesh_position b)
      (Vector3 ((Math_random rnd k - 1 / 2) * 6) 0 ((Math_random rnd (k + 1) - 1 / 2) * 6))"
  obtain t where t: "targetPosition ?b1 = Some t"
    and rest: "if wanderTimer ?b0 \<le> 0 \<or> targetPosition ?b0 = None
      then t = add (mesh_position ?b0)
             (Vector3 ((Math_random rnd k - 1 / 2) * 6) 0
                ((Math_random rnd (k + 1) - 1 / 2) * 6)) \<and>
           wanderTimer ?b1 = 2 + Math_random rnd (k + 2) * 2 \<and>
           snd (retargetChase rnd k ?b0) = k + 3 \<and>
           \<bar>vx t - vx (mesh_position ?b0)\<bar> \<le> 3 \<and> vy t = vy (mesh_position ?b0) \<and>
           \<bar>vz t - vz (mesh_position ?b0)\<bar> \<le> 3 \<and>
           2 \<le> wanderTimer ?b1 \<and> wanderTimer ?b1 \<le> 4
      else targetPosition ?b0 = Some t \<and> wanderTimer ?b1 = wanderTimer ?b0 \<and>
           snd (retargetChase rnd k ?b0) = k"
    using retargetChase_target [of rnd k ?b0] by blast
  have same: "btype ?b1 = btype b \<and> velocity ?b1 = velocity b \<and>
      mesh_position ?b1 = mesh_position b"
    using retargetChase_same [of rnd k ?b0] by simp
  have tp: "targetPosition ?b' = Some t"
    using assms far t by (simp add: updateBacterium_def steer_def Let_def split_def)
  have wt: "wanderTimer ?b' = wanderTimer ?b1"
    using assms far by (simp add: updateBacterium_def steer_def Let_def split_def)
  have ix: "?k' = snd (retargetChase rnd k ?b0)"
    using assms far by (simp add: updateBacterium_def steer_def Let_def split_def)
  have vel: "velocity ?b' = lerp (velocity b)
      (multiplyScalar (normalize3 (sub3 t (mesh_position b))) (t_speed (btype b) * (1 / 2)))
      (2 / 100)"
    using assms far t same
    by (simp add: updateBacterium_def steer_def Let_def split_def targetDirection_def)
  show "\<exists>t. targetPosition ?b' = Some t \<and>
        velocity ?b' =
          lerp (velocity b)
            (multiplyScalar (normalize3 (sub3 t (mesh_position b))) (t_speed (btype b) * (1 / 2)))
            (2 / 100) \<and>
        (if wanderTimer b - deltaTime \<le> 0 \<or> targetPosition b = None
         then t = ?new \<and> wanderTimer ?b' = 2 + Math_random rnd (k + 2) * 2 \<and> ?k' = k + 3 \<and>
              \<bar>vx t - vx (mesh_position b)\<bar> \<le> 3 \<and> vy t = vy (mesh_position b) \<and>
              \<bar>vz t - vz (mesh_position b)\<bar> \<le> 3 \<and>
              2 \<le> wanderTimer ?b' \<and> wanderTimer ?b' \<le> 4
         else targetPosition b = Some t \<and> wanderTimer ?b' = wanderTimer b - deltaTime \<and>
              ?k' = k)"
  proof (cases "wanderTimer b - deltaTime \<le> 0 \<or> targetPosition b = None")
    case True
    have pos0: "mesh_position ?b0 = mesh_position b"
      and tp0: "targetPosition ?b0 = targetPosition b"
      and wt0: "wanderTimer ?b0 = wanderTimer b - deltaTime"
      by simp_all
    from rest have "t = ?new \<and> wanderTimer ?b1 = 2 + Math_random rnd (k + 2) * 2 \<and>
        snd (retargetChase rnd k ?b0) = k + 3 \<and>
        \<bar>vx t - vx (mesh_position b)\<bar> \<le> 3 \<and> vy t = vy (mesh_position b) \<and>
        \<bar>vz t - vz (mesh_position b)\<bar> \<le> 3 \<and> 2 \<le> wanderTimer ?b1 \<and> wanderTimer ?b1 \<le> 4"
      unfolding pos0 tp0 wt0 if_P [OF True] .
    then have body: "t = ?new \<and> wanderTimer ?b' = 2 + Math_random rnd (k + 2) * 2 \<and>
        ?k' = k + 3 \<and>
        \<bar>vx t - vx (mesh_position b)\<bar> \<le> 3 \<and> vy t = vy (mesh_position b) \<and>
        \<bar>vz t - vz (mesh_position b)\<bar> \<le> 3 \<and> 2 \<le> wanderTimer ?b' \<and> wanderTimer ?b' \<le> 4"
      unfolding wt ix .
    show ?thesis
      unfolding if_P [OF True] using tp vel body by blast
  next
    case False
    have tp0: "targetPosition ?b0 = targetPosition b"
      and wt0: "wanderTimer ?b0 = wanderTimer b - deltaTime"
      by simp_all
    from rest have "targetPosition b = Some t \<and> wanderTimer ?b1 = wanderTimer b - deltaTime \<and>
        snd (retargetChase rnd k ?b0) = k"
      unfolding tp0 wt0 if_not_P [OF False] .
    then have body: "targetPosition b = Some t \<and> wanderTimer ?b' = wanderTimer b - deltaTime \<and>
        ?k' = k"
      unfolding wt ix .
    show ?thesis
      unfolding if_not_P [OF False] using tp vel body by blast
  qed
next
  let ?s = "fst (steer rnd k playerPos (b\<lparr>wanderTimer := wanderTimer b - deltaTime\<rparr>))"
  have v: "velocity (fst (updateBacterium rnd k playerPos deltaTime b)) = velocity ?s"
    using assms by (simp add: updateBacterium_def Let_def split_def)
  have p: "mesh_position ?s = mesh_position b"
    using steer_same [of rnd k playerPos "b\<lparr>wanderTimer := wanderTimer b - deltaTime\<rparr>"]
    by simp
  show "mesh_position (fst (updateBacterium rnd k playerPos deltaTime b)) =
      Vector3
        (vx (mesh_position b) +
           vx (velocity (fst (updateBacterium rnd k playerPos deltaTime b))) * deltaTime)
        (max (1 / 2) (min 5 (vy (mesh_position b) +
           vy (velocity (fst (updateBacterium rnd k playerPos deltaTime b))) * deltaTime)))
        (vz (mesh_position b) +
           vz (velocity (fst (updateBacterium rnd k playerPos deltaTime b))) * deltaTime)"
    unfolding v using assms(1) p
    by (simp add: updateBacterium_def Let_def split_def add_def multiplyScalar_def)
qed

lemma length3_along_x: "length3 (Vector3 x 0 0) = \<bar>x\<bar>"
  by (simp add: length3_def lengthSq_def)

lemma length3_along_z: "length3 (Vector3 0 0 z) = \<bar>z\<bar>"
  by (simp add: length3_def lengthSq_def)

lemma distanceTo_length3: "distanceTo a v = length3 (sub3 a v)"
  by (simp add: distanceTo_def distanceToSquared_def length3_def)

lemma farChaser_distance: "distanceTo (mesh_position farChaser) (Vector3 0 1 0) = 16"
  by (simp add: distanceTo_length3 farChaser_def sub3_def length3_along_x)

lemma nearChaser_distance: "distanceTo (mesh_position nearChaser) (Vector3 0 1 0) = 1"
  by (simp add: distanceTo_length3 nearChaser_def farChaser_def sub3_def length3_along_x)

lemma farChaser_step:
  "velocity (fst (updateBacterium rnd k (Vector3 0 1 0) (1 / 10) farChaser)) =
     Vector3 0 0 (3 / 100)"
proof -
  have live: "0 < health farChaser" and kind: "t_behavior (btype farChaser) = chase"
    by (simp_all add: farChaser_def streptococcus_def)
  have far: "\<not> distanceTo (mesh_position farChaser) (Vector3 0 1 0) < 15"
    by (simp add: farChaser_distance)
  have keep: "\<not> (wanderTimer farChaser - 1 / 10 \<le> 0 \<or> targetPosition farChaser = None)"
    by (simp add: farChaser_def)
  have dir: "normalize3 (sub3 (Vector3 16 1 3) (mesh_position farChaser)) = Vector3 0 0 1"
    by (simp add: farChaser_def sub3_def normalize3_def length3_along_z divideScalar_def
        multiplyScalar_def)
  show ?thesis
    using live kind far keep dir
    by (simp add: updateBacterium_def steer_def Let_def split_def retargetChase_def
        targetDirection_def)
      (simp add: farChaser_def streptococcus_def lerp_def multiplyScalar_def)
qed

lemma Math_random_axisDraws:
  "Math_random axisDraws k = (if k = 1 then 5 / 6 else 1 / 2)"
  by (simp add: Math_random_def axisDraws_def Abs_unit_interval_inverse)

lemma type_facts_chase:
  "t_health streptococcus = 2" "t_speed streptococcus = 3" "t_behavior streptococcus = chase"
  by (simp_all add: streptococcus_def)

theorem chase_near_and_far_witness:
  "0 < health farChaser \<and> t_behavior (btype farChaser) = chase \<and>
   distanceTo (mesh_position farChaser) (Vector3 0 1 0) = 16 \<and>
   velocity (fst (updateBacterium (\<lambda>_. half) 0 (Vector3 0 1 0) (1 / 10) farChaser)) =
     Vector3 0 0 (3 / 100) \<and>
   targetPosition (fst (updateBacterium (\<lambda>_. half) 0 (Vector3 0 1 0) (1 / 10) farChaser)) =
     Some (Vector3 16 1 3) \<and>
   0 < health nearChaser \<and> t_behavior (btype nearChaser) = chase \<and>
   distanceTo (mesh_position nearChaser) (Vector3 0 1 0) = 1 \<and>
   velocity (fst (updateBacterium (\<lambda>_. half) 0 (Vector3 0 1 0) (1 / 10) nearChaser)) =
     Vector3 (- (15 / 100)) 0 0 \<and>
   0 < health freshChaser \<and> t_behavior (btype freshChaser) = chase \<and>
   targetPosition freshChaser = None \<and>
   distanceTo (mesh_position freshChaser) (Vector3 0 1 0) = 16 \<and>
   targetPosition (fst (updateBacterium axisDraws 0 (Vector3 0 1 0) (1 / 10) freshChaser)) =
     Some (Vector3 16 1 2) \<and>
   wanderTimer (fst (updateBacterium axisDraws 0 (Vector3 0 1 0) (1 / 10) freshChaser)) = 3 \<and>
   snd (updateBacterium axisDraws 0 (Vector3 0 1 0) (1 / 10) freshChaser) = 3 \<and>
   velocity (fst (updateBacterium axisDraws 0 (Vector3 0 1 0) (1 / 10) freshChaser)) =
     Vector3 0 0 (3 / 100) \<and>
   mesh_position (fst (updateBacterium axisDraws 0 (Vector3 0 1 0) (1 / 10) freshChaser)) =
     Vector3 16 1 (3 / 1000)"
proof -
  let ?far = "fst (updateBacterium (\<lambda>_. half) 0 (Vector3 0 1 0) (1 / 10) farChaser)"
  let ?near = "fst (updateBacterium (\<lambda>_. half) 0 (Vector3 0 1 0) (1 / 10) nearChaser)"
  have live: "0 < health farChaser" and kind: "t_behavior (btype farChaser) = chase"
    by (simp_all add: farChaser_def streptococcus_def)
  have live': "0 < health nearChaser" and kind': "t_behavior (btype nearChaser) = chase"
    by (simp_all add: nearChaser_def farChaser_def streptococcus_def)
  have far: "\<not> distanceTo (mesh_position farChaser) (Vector3 0 1 0) < 15"
    by (simp add: farChaser_distance)
  have near: "distanceTo (mesh_position nearChaser) (Vector3 0 1 0) < 15"
    by (simp add: nearChaser_distance)
  have keep: "\<not> (wanderTimer farChaser - 1 / 10 \<le> 0 \<or> targetPosition farChaser = None)"
    by (simp add: farChaser_def)
  note far_case = chase_near_and_far [OF live kind, of "Vector3 0 1 0" "\<lambda>_. half" 0 "1 / 10",
      THEN conjunct2, THEN conjunct1, THEN mp, OF far]
  then obtain t where t1: "targetPosition ?far = Some t"
    and v: "velocity ?far = lerp (velocity farChaser)
      (multiplyScalar (normalize3 (sub3 t (mesh_position farChaser)))
         (t_speed (btype farChaser) * (1 / 2))) (2 / 100)"
    and c: "if wanderTimer farChaser - 1 / 10 \<le> 0 \<or> targetPosition farChaser = None
         then t = add (mesh_position farChaser)
                (Vector3 ((Math_random (\<lambda>_. half) 0 - 1 / 2) * 6) 0
                   ((Math_random (\<lambda>_. half) (0 + 1) - 1 / 2) * 6)) \<and>
              wanderTimer ?far = 2 + Math_random (\<lambda>_. half) (0 + 2) * 2 \<and>
              snd (updateBacterium (\<lambda>_. half) 0 (Vector3 0 1 0) (1 / 10) farChaser) = 0 + 3 \<and>
              \<bar>vx t - vx (mesh_position farChaser)\<bar> \<le> 3 \<and>
              vy t = vy (mesh_position farChaser) \<and>
              \<bar>vz t - vz (mesh_position farChaser)\<bar> \<le> 3 \<and>
              2 \<le> wanderTimer ?far \<and> wanderTimer ?far \<le> 4
         else targetPosition farChaser = Some t \<and>
              wanderTimer ?far = wanderTimer farChaser - 1 / 10 \<and>
              snd (updateBacterium (\<lambda>_. half) 0 (Vector3 0 1 0) (1 / 10) farChaser) = 0"
    by blast
  from c have t2: "targetPosition farChaser = Some t"
    unfolding if_not_P [OF keep] by (rule conjunct1)
  note t = t1 t2
  from t(2) have t_eq: "t = Vector3 16 1 3" by (simp add: farChaser_def)
  have dir: "normalize3 (sub3 (Vector3 16 1 3) (mesh_position farChaser)) = Vector3 0 0 1"
    by (simp add: farChaser_def sub3_def normalize3_def length3_along_z divideScalar_def
        multiplyScalar_def)
  have vfar: "velocity ?far = Vector3 0 0 (3 / 100)"
    using v dir unfolding t_eq
    by (simp add: farChaser_def streptococcus_def lerp_def multiplyScalar_def)
  note near_case = chase_near_and_far [OF live' kind', of "Vector3 0 1 0" "\<lambda>_. half" 0
      "1 / 10", THEN conjunct1, THEN mp, OF near]
  then have v': "velocity ?near = lerp (velocity nearChaser)
      (multiplyScalar (normalize3 (sub3 (Vector3 0 1 0) (mesh_position nearChaser)))
         (t_speed (btype nearChaser))) (5 / 100)"
    by (rule conjunct1)
  have dir': "normalize3 (sub3 (Vector3 0 1 0) (mesh_position nearChaser)) = Vector3 (- 1) 0 0"
    by (simp add: nearChaser_def farChaser_def sub3_def normalize3_def length3_along_x
        divideScalar_def multiplyScalar_def)
  have vnear: "velocity ?near = Vector3 (- (15 / 100)) 0 0"
    using v' dir'
    by (simp add: nearChaser_def farChaser_def streptococcus_def lerp_def multiplyScalar_def)
  have tfar: "targetPosition ?far = Some (Vector3 16 1 3)"
    using t1 t_eq by simp
  let ?fresh = "fst (updateBacterium axisDraws 0 (Vector3 0 1 0) (1 / 10) freshChaser)"
  have live'': "0 < health freshChaser" and kind'': "t_behavior (btype freshChaser) = chase"
    by (simp_all add: freshChaser_def cellAt_def type_facts_chase)
  have none: "targetPosition freshChaser = None"
    by (simp add: freshChaser_def cellAt_def)
  have dist'': "distanceTo (mesh_position freshChaser) (Vector3 0 1 0) = 16"
    by (simp add: distanceTo_length3 freshChaser_def cellAt_def sub3_def length3_along_x)
  have far'': "\<not> distanceTo (mesh_position freshChaser) (Vector3 0 1 0) < 15"
    by (simp add: dist'')
  have due: "wanderTimer freshChaser - 1 / 10 \<le> 0 \<or> targetPosition freshChaser = None"
    using none by simp
  note inst = chase_near_and_far [OF live'' kind'', of "Vector3 0 1 0" axisDraws 0 "1 / 10"]
  note fresh_case = inst [THEN conjunct2, THEN conjunct1, THEN mp, OF far'',
      unfolded if_P [OF due]]
  then obtain u where u1: "targetPosition ?fresh = Some u"
    and uv: "velocity ?fresh = lerp (velocity freshChaser)
      (multiplyScalar (normalize3 (sub3 u (mesh_position freshChaser)))
         (t_speed (btype freshChaser) * (1 / 2))) (2 / 100)"
    and u2: "u = add (mesh_position freshChaser)
        (Vector3 ((Math_random axisDraws 0 - 1 / 2) * 6) 0
           ((Math_random axisDraws (0 + 1) - 1 / 2) * 6))"
    and ut: "wanderTimer ?fresh = 2 + Math_random axisDraws (0 + 2) * 2"
    and uk: "snd (updateBacterium axisDraws 0 (Vector3 0 1 0) (1 / 10) freshChaser) = 0 + 3"
    by blast
  have u_eq: "u = Vector3 16 1 2"
    unfolding u2 by (simp add: Math_random_axisDraws freshChaser_def cellAt_def add_def)
  have tfresh: "targetPosition ?fresh = Some (Vector3 16 1 2)"
    using u1 u_eq by simp
  have wfresh: "wanderTimer ?fresh = 3"
    unfolding ut by (simp add: Math_random_axisDraws)
  have kfresh: "snd (updateBacterium axisDraws 0 (Vector3 0 1 0) (1 / 10) freshChaser) = 3"
    using uk by simp
  have dir'': "normalize3 (sub3 (Vector3 16 1 2) (mesh_position freshChaser)) = Vector3 0 0 1"
    by (simp add: freshChaser_def cellAt_def sub3_def normalize3_def length3_along_z
        divideScalar_def multiplyScalar_def)
  have vfresh: "velocity ?fresh = Vector3 0 0 (3 / 100)"
    using uv dir'' unfolding u_eq
    by (simp add: freshChaser_def cellAt_def type_facts_chase lerp_def multiplyScalar_def)
  note moved = inst [THEN conjunct2, THEN conjunct2]
  have pfresh: "mesh_position ?fresh = Vector3 16 1 (3 / 1000)"
    unfolding moved vfresh by (simp add: freshChaser_def cellAt_def)
  show ?thesis
    using live kind live' kind' farChaser_distance nearChaser_distance vfar vnear tfar
      live'' kind'' none dist'' tfresh wfresh kfresh vfresh pfresh
    by (intro conjI)
qed

subsection \<open>The collision loop of one projectile\<close>

lemma collideBacteria_damage:
  "fst (collideBacteria p pIndex bIndex bs) = map (damage p) bs"
  by (induction bs arbitrary: bIndex)
    (simp_all add: split_def Let_def damage_def hitBy_def inRange_def)

lemma collideBacteria_projectile_pushes:
  "fst (snd (collideBacteria p pIndex bIndex bs)) =
     replicate (length (filter (hitBy p) bs)) pIndex"
  by (induction bs arbitrary: bIndex)
    (simp_all add: split_def Let_def hitBy_def inRange_def)

lemma collideBacteria_bacteria_pushes:
  "snd (snd (collideBacteria p pIndex bIndex bs)) =
     map (\<lambda>i. bIndex + i)
       (filter (\<lambda>i. hitBy p (bs ! i) \<and> health (bs ! i) - 1 \<le> 0) [0..<length bs])"
proof (induction bs arbitrary: bIndex)
  case Nil
  then show ?case by simp
next
  case (Cons b bs)
  have shift: "[0..<length (b # bs)] = 0 # map Suc [0..<length bs]"
    by (simp add: upt_conv_Cons map_Suc_upt del: upt_Suc)
  show ?case
    unfolding shift
    by (simp add: Cons.IH split_def Let_def hitBy_def inRange_def filter_map comp_def)
qed

lemma damage_same:
  "btype (damage p b) = btype b \<and> mesh_position (damage p b) = mesh_position b \<and>
   velocity (damage p b) = velocity b"
  by (simp add: damage_def)

lemma damage_health:
  "health (damage p b) = (if hitBy p b then health b - 1 else health b)"
  by (simp add: damage_def)

lemma damage_nonneg: "0 \<le> health b \<Longrightarrow> 0 \<le> health (damage p b)"
  by (simp add: damage_health hitBy_def)

lemma damage_dead: "health b \<le> 0 \<Longrightarrow> damage p b = b"
  by (simp add: damage_def hitBy_def)

lemma inRange_damage: "inRange q (damage p b) = inRange q b"
  by (simp add: inRange_def damage_same)

subsection \<open>The pass over all projectiles\<close>

lemma forEachProjectile_projectiles:
  "fst (forEachProjectile deltaTime now pIndex ps bs) = map (moveProjectile deltaTime) ps"
  by (induction ps arbitrary: pIndex bs) (simp_all add: split_def Let_def)

lemma forEachProjectile_bacteria:
  "fst (snd (forEachProjectile deltaTime now pIndex ps bs)) =
     foldl (\<lambda>bs p. map (damage p) bs) bs (colliding deltaTime now ps)"
proof (induction ps arbitrary: pIndex bs)
  case Nil
  then show ?case by (simp add: colliding_def)
next
  case (Cons p ps)
  show ?case
  proof (cases "expired now (moveProjectile deltaTime p)")
    case True
    then show ?thesis
      using Cons.IH [of "Suc pIndex" bs]
      by (simp add: split_def Let_def colliding_def)
  next
    case False
    then show ?thesis
      using Cons.IH [of "Suc pIndex" "map (damage (moveProjectile deltaTime p)) bs"]
      by (simp add: split_def Let_def colliding_def collideBacteria_damage)
  qed
qed

lemma foldl_damage_length:
  "length (foldl (\<lambda>bs p. map (damage p) bs) bs qs) = length bs"
  by (induction qs arbitrary: bs) simp_all

lemma foldl_damage_nth:
  "i < length bs \<Longrightarrow>
   foldl (\<lambda>bs p. map (damage p) bs) bs qs ! i = foldl (\<lambda>b p. damage p b) (bs ! i) qs"
  by (induction qs arbitrary: bs) simp_all

lemma foldl_damage_same:
  "btype (foldl (\<lambda>b p. damage p b) b qs) = btype b \<and>
   mesh_position (foldl (\<lambda>b p. damage p b) b qs) = mesh_position b \<and>
   velocity (foldl (\<lambda>b p. damage p b) b qs) = velocity b"
  by (induction qs arbitrary: b) (simp_all add: damage_same)

text \<open>
  Each projectile in range takes one hit point from a bacterium for as long as it has
  one left.
\<close>

lemma foldl_damage_health:
  "0 \<le> health b \<Longrightarrow>
   health (foldl (\<lambda>b p. damage p b) b qs) =
     max 0 (health b - int (length (filter (\<lambda>p. inRange p b) qs)))"
proof (induction qs arbitrary: b)
  case Nil
  then show ?case by simp
next
  case (Cons q qs)
  have nn: "0 \<le> health (damage q b)"
    using Cons.prems by (rule damage_nonneg)
  have same: "filter (\<lambda>p. inRange p (damage q b)) qs = filter (\<lambda>p. inRange p b) qs"
    by (simp add: inRange_damage)
  note step = Cons.IH [OF nn, unfolded same]
  show ?case
  proof (cases "hitBy q b")
    case True
    then have "inRange q b" and "health (damage q b) = health b - 1"
      by (simp_all add: hitBy_def damage_health)
    then show ?thesis using step by (simp add: diff_diff_eq)
  next
    case False
    then have keep: "health (damage q b) = health b"
      by (simp add: damage_health)
    show ?thesis
    proof (cases "inRange q b")
      case True
      with False Cons.prems have "health b = 0" by (simp add: hitBy_def)
      then show ?thesis using step keep by simp
    next
      case False
      then show ?thesis using step keep by simp
    qed
  qed
qed

subsection \<open>Removal by descending index\<close>

lemma uniqueDescending_set: "set (uniqueDescending xs) = set xs"
  by (simp add: uniqueDescending_def)

lemma uniqueDescending_sorted: "sorted_wrt (>) (uniqueDescending xs)"
proof -
  have "sorted (sort (remdups xs))" and "distinct (sort (remdups xs))"
    by simp_all
  then have "sorted_wrt (<) (sort (remdups xs))"
    by (simp add: strict_sorted_iff)
  then have "sorted_wrt (\<lambda>x y. y < x) (rev (sort (remdups xs)))"
    by (simp add: sorted_wrt_rev)
  then show ?thesis by (simp add: uniqueDescending_def)
qed

lemma splice1_length: "i < length xs \<Longrightarrow> length (splice1 i xs) = length xs - 1"
  by (simp add: splice1_def)

lemma splice1_nth:
  "i < length xs \<Longrightarrow> j < length xs - 1 \<Longrightarrow>
   splice1 i xs ! j = (if j < i then xs ! j else xs ! Suc j)"
  by (simp add: splice1_def nth_append min_def)

lemma splice1_subset: "set (splice1 i xs) \<subseteq> set xs"
proof -
  have "set (take i xs) \<subseteq> set xs" by (rule set_take_subset)
  moreover have "set (drop (Suc i) xs) \<subseteq> set xs" by (rule set_drop_subset)
  ultimately show ?thesis by (simp add: splice1_def)
qed

lemma removeBacteria_subset: "set (fst (removeBacteria c is bs s)) \<subseteq> set bs"
proof (induction "is" arbitrary: bs s)
  case Nil
  then show ?case by simp
next
  case (Cons i "is")
  show ?case
  proof (cases "i < length bs")
    case True
    have "set (fst (removeBacteria c is (splice1 i bs) (scoreKill c (btype (bs ! i)) s)))
        \<subseteq> set (splice1 i bs)"
      by (rule Cons.IH)
    then show ?thesis using True splice1_subset [of i bs] by auto
  next
    case False
    then show ?thesis using Cons.IH [of bs s] by simp
  qed
qed

text \<open>
  When the indices come largest first and name every bacterium without hit points, none
  without hit points is left.
\<close>

lemma removeBacteria_alive:
  assumes "sorted_wrt (>) is"
    and "\<forall>j < length bs. health (bs ! j) \<le> 0 \<longrightarrow> j \<in> set is"
  shows "\<forall>b \<in> set (fst (removeBacteria c is bs s)). 0 < health b"
  using assms
proof (induction "is" arbitrary: bs s)
  case Nil
  then have "\<forall>j < length bs. 0 < health (bs ! j)" by (simp add: not_le)
  then show ?case by (auto simp: in_set_conv_nth)
next
  case (Cons i "is")
  from Cons.prems(1) have desc: "sorted_wrt (>) is" and below: "\<forall>x \<in> set is. x < i"
    by simp_all
  show ?case
  proof (cases "i < length bs")
    case True
    have named: "\<forall>j < length (splice1 i bs). health (splice1 i bs ! j) \<le> 0 \<longrightarrow> j \<in> set is"
    proof (intro allI impI)
      fix j
      assume j: "j < length (splice1 i bs)" and dead: "health (splice1 i bs ! j) \<le> 0"
      from j True have j': "j < length bs - 1" by (simp add: splice1_length)
      show "j \<in> set is"
      proof (cases "j < i")
        case True
        with dead \<open>i < length bs\<close> j' have "health (bs ! j) \<le> 0"
          by (simp add: splice1_nth)
        moreover have "j < length bs" using j' by simp
        ultimately have "j \<in> set (i # is)" using Cons.prems(2) by blast
        with True show ?thesis by simp
      next
        case False
        with dead \<open>i < length bs\<close> j' have "health (bs ! Suc j) \<le> 0"
          by (simp add: splice1_nth)
        moreover have "Suc j < length bs" using j' by simp
        ultimately have "Suc j \<in> set (i # is)" using Cons.prems(2) by blast
        with False below show ?thesis by auto
      qed
    qed
    show ?thesis
      using True Cons.IH [OF desc named] by simp
  next
    case False
    have named: "\<forall>j < length bs. health (bs ! j) \<le> 0 \<longrightarrow> j \<in> set is"
      using Cons.prems(2) False by auto
    show ?thesis
      using False Cons.IH [OF desc named] by simp
  qed
qed

subsection \<open>Every bacterium that loses its last hit point is listed for removal\<close>

lemma collideBacteria_lists_dead:
  assumes "j < length bs" and "health (damage p (bs ! j)) \<le> 0"
  shows "health (bs ! j) \<le> 0 \<or> j \<in> set (snd (snd (collideBacteria p pIndex 0 bs)))"
proof (cases "hitBy p (bs ! j)")
  case True
  with assms(2) have "health (bs ! j) - 1 \<le> 0" by (simp add: damage_health)
  with True assms(1) show ?thesis
    by (simp add: collideBacteria_bacteria_pushes)
next
  case False
  with assms(2) show ?thesis by (simp add: damage_health)
qed

lemma forEachProjectile_length:
  "length (fst (snd (forEachProjectile deltaTime now pIndex ps bs))) = length bs"
  by (simp add: forEachProjectile_bacteria foldl_damage_length)

lemma forEachProjectile_lists_dead:
  "j < length bs \<Longrightarrow>
   health (fst (snd (forEachProjectile deltaTime now pIndex ps bs)) ! j) \<le> 0 \<Longrightarrow>
   health (bs ! j) \<le> 0 \<or>
     j \<in> set (snd (snd (snd (forEachProjectile deltaTime now pIndex ps bs))))"
proof (induction ps arbitrary: pIndex bs)
  case Nil
  then show ?case by simp
next
  case (Cons p ps)
  let ?p = "moveProjectile deltaTime p"
  show ?case
  proof (cases "expired now ?p")
    case True
    then show ?thesis
      using Cons.IH [of bs "Suc pIndex"] Cons.prems
      by (simp add: split_def Let_def)
  next
    case False
    let ?bs1 = "fst (collideBacteria ?p pIndex 0 bs)"
    have len: "j < length ?bs1"
      using Cons.prems(1) by (simp add: collideBacteria_damage)
    have dead: "health (fst (snd (forEachProjectile deltaTime now (Suc pIndex) ps ?bs1)) ! j) \<le> 0"
      using Cons.prems(2) False by (simp add: split_def Let_def)
    from Cons.IH [OF len dead]
    have "health (?bs1 ! j) \<le> 0 \<or>
        j \<in> set (snd (snd (snd (forEachProjectile deltaTime now (Suc pIndex) ps ?bs1))))" .
    then show ?thesis
    proof
      assume "health (?bs1 ! j) \<le> 0"
      then have "health (damage ?p (bs ! j)) \<le> 0"
        using Cons.prems(1) by (simp add: collideBacteria_damage)
      from collideBacteria_lists_dead [OF Cons.prems(1) this, of pIndex]
      show ?thesis using False by (auto simp: split_def Let_def)
    next
      assume "j \<in> set (snd (snd (snd (forEachProjectile deltaTime now (Suc pIndex) ps ?bs1))))"
      then show ?thesis using False by (simp add: split_def Let_def)
    qed
  qed
qed

subsection \<open>The projectiles that stay\<close>

lemma nths_cong_below:
  "(\<And>j. j < length xs \<Longrightarrow> j \<in> A \<longleftrightarrow> j \<in> B) \<Longrightarrow> nths xs A = nths xs B"
proof -
  assume same: "\<And>j. j < length xs \<Longrightarrow> j \<in> A \<longleftrightarrow> j \<in> B"
  have "filter (\<lambda>p. snd p \<in> A) (zip xs [0..<length xs]) =
      filter (\<lambda>p. snd p \<in> B) (zip xs [0..<length xs])"
  proof (rule filter_cong [OF refl])
    fix p
    assume "p \<in> set (zip xs [0..<length xs])"
    then have "(fst p, snd p) \<in> set (zip xs [0..<length xs])" by simp
    then have "snd p \<in> set [0..<length xs]" by (rule set_zip_rightD)
    then show "(snd p \<in> A) = (snd p \<in> B)" using same by simp
  qed
  then show ?thesis by (simp add: nths_def)
qed

lemma splice1_nths:
  assumes "i < length xs" and "\<forall>x \<in> S. x < i"
  shows "nths (splice1 i xs) {j. j \<notin> S} = nths xs {j. j \<noteq> i \<and> j \<notin> S}"
proof -
  have len: "length (take i xs) = i" using assms(1) by simp
  have len': "min (length xs) i = i" using assms(1) by simp
  have tail: "nths (drop (Suc i) xs) B = drop (Suc i) xs"
    if "\<And>j. j \<in> B" for B
    using that by (simp add: nths_all)
  have head: "nths (take i xs) {j. j \<noteq> i \<and> j \<notin> S} = nths (take i xs) {j. j \<notin> S}"
    by (rule nths_cong_below) (simp add: len)
  have "nths (splice1 i xs) {j. j \<notin> S} =
      nths (take i xs) {j. j \<notin> S} @ nths (drop (Suc i) xs) {j. j + i \<notin> S}"
    by (simp add: splice1_def nths_append len')
  also have "nths (drop (Suc i) xs) {j. j + i \<notin> S} = drop (Suc i) xs"
    using assms(2) by (intro tail) auto
  finally have left: "nths (splice1 i xs) {j. j \<notin> S} =
      nths (take i xs) {j. j \<notin> S} @ drop (Suc i) xs" .
  have "xs = take i xs @ xs ! i # drop (Suc i) xs"
    using assms(1) by (rule id_take_nth_drop)
  then have "nths xs {j. j \<noteq> i \<and> j \<notin> S} =
      nths (take i xs @ xs ! i # drop (Suc i) xs) {j. j \<noteq> i \<and> j \<notin> S}"
    by simp
  also have "\<dots> = nths (take i xs) {j. j \<noteq> i \<and> j \<notin> S} @
      nths (drop (Suc i) xs) {j. Suc (j + i) \<noteq> i \<and> Suc (j + i) \<notin> S}"
    by (simp add: nths_append nths_Cons len')
  also have "nths (drop (Suc i) xs) {j. Suc (j + i) \<noteq> i \<and> Suc (j + i) \<notin> S} =
      drop (Suc i) xs"
    using assms(2) by (intro tail) auto
  finally show ?thesis using left head by simp
qed

lemma removeProjectiles_nths:
  "sorted_wrt (>) is \<Longrightarrow> removeProjectiles is ps = nths ps {j. j \<notin> set is}"
proof (induction "is" arbitrary: ps)
  case Nil
  then show ?case by (simp add: nths_all)
next
  case (Cons i "is")
  from Cons.prems have desc: "sorted_wrt (>) is" and below: "\<forall>x \<in> set is. x < i"
    by simp_all
  show ?case
  proof (cases "i < length ps")
    case True
    have "removeProjectiles (i # is) ps = nths (splice1 i ps) {j. j \<notin> set is}"
      using True Cons.IH [OF desc] by simp
    also have "\<dots> = nths ps {j. j \<noteq> i \<and> j \<notin> set is}"
      using True below by (rule splice1_nths)
    finally show ?thesis by simp
  next
    case False
    have "removeProjectiles (i # is) ps = nths ps {j. j \<notin> set is}"
      using False Cons.IH [OF desc] by simp
    also have "\<dots> = nths ps {j. j \<notin> set (i # is)}"
      using False by (intro nths_cong_below) auto
    finally show ?thesis .
  qed
qed

lemma removeBacteria_nths:
  "sorted_wrt (>) is \<Longrightarrow> fst (removeBacteria c is bs s) = nths bs {j. j \<notin> set is}"
proof (induction "is" arbitrary: bs s)
  case Nil
  then show ?case by (simp add: nths_all)
next
  case (Cons i "is")
  from Cons.prems have desc: "sorted_wrt (>) is" and below: "\<forall>x \<in> set is. x < i"
    by simp_all
  show ?case
  proof (cases "i < length bs")
    case True
    have "fst (removeBacteria c (i # is) bs s) = nths (splice1 i bs) {j. j \<notin> set is}"
      using True Cons.IH [OF desc] by simp
    also have "\<dots> = nths bs {j. j \<noteq> i \<and> j \<notin> set is}"
      using True below by (rule splice1_nths)
    finally show ?thesis by simp
  next
    case False
    have "fst (removeBacteria c (i # is) bs s) = nths bs {j. j \<notin> set is}"
      using False Cons.IH [OF desc] by simp
    also have "\<dots> = nths bs {j. j \<notin> set (i # is)}"
      using False by (intro nths_cong_below) auto
    finally show ?thesis .
  qed
qed

subsection \<open>What a frame removes\<close>

lemma forEachProjectile_pushes_ge:
  "x \<in> set (fst (snd (snd (forEachProjectile deltaTime now pIndex ps bs)))) \<Longrightarrow> pIndex \<le> x"
proof (induction ps arbitrary: pIndex bs)
  case Nil
  then show ?case by simp
next
  case (Cons p ps)
  let ?p = "moveProjectile deltaTime p"
  show ?case
  proof (cases "expired now ?p")
    case True
    with Cons.prems have "x = pIndex \<or>
        x \<in> set (fst (snd (snd (forEachProjectile deltaTime now (Suc pIndex) ps bs))))"
      by (simp add: split_def Let_def)
    then show ?thesis using Cons.IH [of "Suc pIndex" bs] by auto
  next
    case False
    let ?bs1 = "fst (collideBacteria ?p pIndex 0 bs)"
    from False Cons.prems have "x \<in> set (fst (snd (collideBacteria ?p pIndex 0 bs))) \<or>
        x \<in> set (fst (snd (snd (forEachProjectile deltaTime now (Suc pIndex) ps ?bs1))))"
      by (simp add: split_def Let_def)
    then show ?thesis
      using Cons.IH [of "Suc pIndex" ?bs1]
      by (auto simp: collideBacteria_projectile_pushes)
  qed
qed

text \<open>
  The first projectile of a pass is listed for removal exactly when it has expired or
  hits a bacterium.
\<close>

lemma forEachProjectile_head_listed:
  "pIndex \<in> set (fst (snd (snd (forEachProjectile deltaTime now pIndex (p # ps) bs)))) \<longleftrightarrow>
     expired now (moveProjectile deltaTime p) \<or>
     (\<exists>b \<in> set bs. hitBy (moveProjectile deltaTime p) b)"
proof -
  let ?p = "moveProjectile deltaTime p"
  have later: "pIndex \<notin> set (fst (snd (snd (forEachProjectile deltaTime now (Suc pIndex) ps bs'))))"
    for bs'
    using forEachProjectile_pushes_ge [of pIndex deltaTime now "Suc pIndex" ps bs'] by auto
  have hits: "replicate (length (filter (hitBy ?p) bs)) pIndex \<noteq> [] \<longleftrightarrow>
      (\<exists>b \<in> set bs. hitBy ?p b)"
    by (simp add: filter_empty_conv)
  show ?thesis
  proof (cases "expired now ?p")
    case True
    then show ?thesis by (simp add: split_def Let_def)
  next
    case False
    then have "pIndex \<in> set (fst (snd (snd (forEachProjectile deltaTime now pIndex (p # ps) bs))))
        \<longleftrightarrow> pIndex \<in> set (replicate (length (filter (hitBy ?p) bs)) pIndex)"
      using later by (simp add: split_def Let_def collideBacteria_projectile_pushes)
    also have "\<dots> \<longleftrightarrow> (\<exists>b \<in> set bs. hitBy ?p b)"
      using hits by (simp add: filter_empty_conv)
    finally show ?thesis using False by simp
  qed
qed

lemma forEachProjectile_expired_listed:
  "i < length ps \<Longrightarrow> expired now (moveProjectile deltaTime (ps ! i)) \<Longrightarrow>
   pIndex + i \<in> set (fst (snd (snd (forEachProjectile deltaTime now pIndex ps bs))))"
proof (induction ps arbitrary: pIndex bs i)
  case Nil
  then show ?case by simp
next
  case (Cons p ps)
  show ?case
  proof (cases i)
    case 0
    with Cons.prems show ?thesis by (simp add: split_def Let_def)
  next
    case (Suc n)
    with Cons.prems have n: "n < length ps" and e: "expired now (moveProjectile deltaTime (ps ! n))"
      by simp_all
    have "Suc pIndex + n \<in>
        set (fst (snd (snd (forEachProjectile deltaTime now (Suc pIndex) ps bs'))))" for bs'
      using n e by (rule Cons.IH)
    then show ?thesis using Suc by (simp add: split_def Let_def)
  qed
qed

lemma updateProjectiles_projectiles:
  "fst (updateProjectiles c deltaTime now ps bs s) =
     nths (map (moveProjectile deltaTime) ps)
       {j. j \<notin> set (fst (snd (snd (forEachProjectile deltaTime now 0 ps bs))))}"
  by (simp add: updateProjectiles_def split_def Let_def removeProjectiles_nths
      uniqueDescending_sorted uniqueDescending_set forEachProjectile_projectiles)

lemma updateProjectiles_none_expired:
  assumes "q \<in> set (fst (updateProjectiles c deltaTime now ps bs s))"
  shows "\<not> expired now q"
proof
  assume e: "expired now q"
  from assms obtain j where j: "j < length ps" and q: "q = moveProjectile deltaTime (ps ! j)"
    and kept: "j \<notin> set (fst (snd (snd (forEachProjectile deltaTime now 0 ps bs))))"
    by (auto simp: updateProjectiles_projectiles set_nths)
  from forEachProjectile_expired_listed [OF j, of now deltaTime 0 bs] e q kept
  show False by simp
qed

lemma updateProjectiles_alive:
  assumes "\<forall>b \<in> set bs. 0 < health b"
  shows "\<forall>b \<in> set (fst (snd (updateProjectiles c deltaTime now ps bs s))). 0 < health b"
proof -
  let ?r = "forEachProjectile deltaTime now 0 ps bs"
  let ?bs1 = "fst (snd ?r)"
  let ?br = "snd (snd (snd ?r))"
  have named: "\<forall>j < length ?bs1. health (?bs1 ! j) \<le> 0 \<longrightarrow> j \<in> set (uniqueDescending ?br)"
  proof (intro allI impI)
    fix j
    assume j: "j < length ?bs1" and dead: "health (?bs1 ! j) \<le> 0"
    from j have j': "j < length bs" by (simp add: forEachProjectile_length)
    then have "0 < health (bs ! j)" using assms by simp
    with forEachProjectile_lists_dead [OF j' dead]
    show "j \<in> set (uniqueDescending ?br)" by (simp add: uniqueDescending_set)
  qed
  have "\<forall>b \<in> set (fst (removeBacteria c (uniqueDescending ?br) ?bs1 s)). 0 < health b"
    using uniqueDescending_sorted named by (rule removeBacteria_alive)
  then show ?thesis
    by (simp add: updateProjectiles_def split_def Let_def)
qed

lemma updateBacterium_health:
  "health (fst (updateBacterium rnd k playerPos deltaTime b)) = health b"
  by (simp add: updateBacterium_def Let_def split_def steer_same)

lemma updateBacteria_alive:
  "\<forall>b \<in> set bs. 0 < health b \<Longrightarrow>
   \<forall>b \<in> set (fst (updateBacteria rnd k playerPos deltaTime bs)). 0 < health b"
proof (induction bs arbitrary: k)
  case Nil
  then show ?case by simp
next
  case (Cons b bs)
  from Cons.prems have "0 < health b" and rest: "\<forall>x \<in> set bs. 0 < health x"
    by simp_all
  then show ?case
    using Cons.IH [OF rest, of "snd (updateBacterium rnd k playerPos deltaTime b)"]
    by (simp add: split_def Let_def updateBacterium_health)
qed

lemma animate_bacteria:
  "bacteria (animate rnd playerPos delta now w) =
     fst (snd (updateProjectiles mountClosure (min delta (1 / 10)) now (projectiles w)
       (fst (updateBacteria rnd (nextRandom w) playerPos (min delta (1 / 10)) (bacteria w)))
       (state w)))"
  by (simp add: animate_def Let_def split_def)

lemma animate_alive:
  assumes "\<forall>b \<in> set (bacteria w). 0 < health b"
  shows "\<forall>b \<in> set (bacteria (animate rnd playerPos delta now w)). 0 < health b"
  unfolding animate_bacteria
  by (intro updateProjectiles_alive updateBacteria_alive assms)

lemma foldl_damage_nonneg:
  assumes "\<forall>b \<in> set bs. 0 \<le> health b"
  shows "\<forall>b \<in> set (foldl (\<lambda>bs p. map (damage p) bs) bs qs). 0 \<le> health b"
proof
  fix b
  assume "b \<in> set (foldl (\<lambda>bs p. map (damage p) bs) bs qs)"
  then obtain i where i: "i < length bs"
    and b: "b = foldl (\<lambda>bs p. map (damage p) bs) bs qs ! i"
    by (auto simp: in_set_conv_nth foldl_damage_length)
  from i assms have "0 \<le> health (bs ! i)" by simp
  then show "0 \<le> health b"
    unfolding b by (simp add: foldl_damage_nth [OF i] foldl_damage_health)
qed

subsection \<open>Evaluating the worked game\<close>

lemma inRange_iff:
  "inRange p b \<longleftrightarrow> distanceToSquared (p_position p) (mesh_position b) < 36 / 100"
  unfolding inRange_def distanceTo_less_iff by simp

lemma normalize3_zero: "normalize3 (Vector3 0 0 0) = Vector3 0 0 0"
  by (simp add: normalize3_def length3_zero divideScalar_def multiplyScalar_def)

lemma sub3_self: "sub3 a a = Vector3 0 0 0"
  by (simp add: sub3_def)

lemma far_from_player0:
  "\<not> distanceTo (Vector3 0 1 0) player0 < 15"
  unfolding distanceTo_less_iff
  by (simp add: distanceToSquared_def sub3_def lengthSq_def player0_def)

lemma collideBacteria_step:
  "collideBacteria p pIndex bIndex (b # bs) =
     (let (bs', pr, br) = collideBacteria p pIndex (Suc bIndex) bs in
      if health b \<le> 0 then (b # bs', pr, br)
      else if inRange p b then
        (b\<lparr>health := health b - 1\<rparr> # bs', pIndex # pr,
         (if health b - 1 \<le> 0 then bIndex # br else br))
      else (b # bs', pr, br))"
  by (simp only: collideBacteria.simps inRange_def)

lemma type_facts:
  "t_health ecoli = 1" "t_points ecoli = 10" "t_speed ecoli = 2" "t_behavior ecoli = wander"
  "t_health streptococcus = 2" "t_points streptococcus = 25" "t_speed streptococcus = 3"
  "t_behavior streptococcus = chase"
  by (simp_all add: ecoli_def streptococcus_def)

text \<open>A bacterium at rest on its own target stays as it is while its timer runs.\<close>

lemma updateBacterium_settled_ecoli:
  assumes "1 / 10 < t" and "1 / 2 \<le> y" and "y \<le> 5"
  shows "updateBacterium rnd k playerPos (1 / 10) (settled (Vector3 x y z) ecoli t) =
     (settled (Vector3 x y z) ecoli (t - 1 / 10), k)"
  using assms
  by (simp add: updateBacterium_def steer_def Let_def retargetWander_def targetDirection_def
      settled_def cellAt_def type_facts add_def sub3_def normalize3_zero lerp_def
      multiplyScalar_def)

lemma updateBacterium_settled_streptococcus:
  assumes "1 / 10 < t"
  shows "updateBacterium rnd k player0 (1 / 10) (settled (Vector3 0 1 0) streptococcus t) =
     (settled (Vector3 0 1 0) streptococcus (t - 1 / 10), k)"
  using assms far_from_player0
  by (simp add: updateBacterium_def steer_def Let_def retargetChase_def targetDirection_def
      settled_def cellAt_def type_facts add_def sub3_def normalize3_zero lerp_def
      multiplyScalar_def)

lemma updateBacteria_settled_row:
  "1 / 10 < t \<Longrightarrow>
   updateBacteria rnd k playerPos (1 / 10) (map (\<lambda>z. settled (Vector3 20 1 z) ecoli t) zs) =
     (map (\<lambda>z. settled (Vector3 20 1 z) ecoli (t - 1 / 10)) zs, k)"
  by (induction zs) (simp_all add: updateBacterium_settled_ecoli)

lemma updateBacteria_bystanders:
  "1 / 10 < t \<Longrightarrow>
   updateBacteria rnd k playerPos (1 / 10) (bystanders t) = (bystanders (t - 1 / 10), k)"
  unfolding bystanders_def by (rule updateBacteria_settled_row)

lemma far_row_not_inRange:
  "vx (p_position p) \<le> 3 \<Longrightarrow> \<not> inRange p (settled (Vector3 20 1 z) ecoli t)"
proof -
  assume "vx (p_position p) \<le> 3"
  then have d: "17 \<le> 20 - vx (p_position p)" by simp
  have "17 * 17 \<le> (20 - vx (p_position p)) * (20 - vx (p_position p))"
    using d by (intro mult_mono) simp_all
  also have "\<dots> = (vx (p_position p) - 20) * (vx (p_position p) - 20)"
    by (simp add: algebra_simps)
  finally have x: "289 \<le> (vx (p_position p) - 20) * (vx (p_position p) - 20)" by simp
  have y: "0 \<le> (vy (p_position p) - 1) * (vy (p_position p) - 1)" by simp
  have z: "0 \<le> (vz (p_position p) - z) * (vz (p_position p) - z)" by simp
  have "distanceToSquared (p_position p) (Vector3 20 1 z) =
      (vx (p_position p) - 20) * (vx (p_position p) - 20) +
      (vy (p_position p) - 1) * (vy (p_position p) - 1) +
      (vz (p_position p) - z) * (vz (p_position p) - z)"
    by (simp add: distanceToSquared_def sub3_def lengthSq_def)
  with x y z have far: "\<not> distanceToSquared (p_position p) (Vector3 20 1 z) < 36 / 100"
    by linarith
  have pos: "mesh_position (settled (Vector3 20 1 z) ecoli t) = Vector3 20 1 z"
    by (simp add: settled_def cellAt_def)
  show ?thesis
    unfolding inRange_iff pos by (rule far)
qed

lemma collideBacteria_far_row:
  "vx (p_position p) \<le> 3 \<Longrightarrow>
   collideBacteria p pIndex bIndex (map (\<lambda>z. settled (Vector3 20 1 z) ecoli t) zs) =
     (map (\<lambda>z. settled (Vector3 20 1 z) ecoli t) zs, [], [])"
  by (induction zs arbitrary: bIndex)
    (simp_all add: collideBacteria_step far_row_not_inRange del: collideBacteria.simps(2))

lemma collideBacteria_bystanders:
  "vx (p_position p) \<le> 3 \<Longrightarrow>
   collideBacteria p pIndex bIndex (bystanders t) = (bystanders t, [], [])"
  unfolding bystanders_def by (rule collideBacteria_far_row)

lemma frame1_bacteria:
  "updateBacteria rnd 0 player0 (1 / 10)
     (settled (Vector3 0 1 0) streptococcus 3 # settled (Vector3 3 1 0) ecoli 3 # bystanders 3) =
   (settled (Vector3 0 1 0) streptococcus (29 / 10) # settled (Vector3 3 1 0) ecoli (29 / 10) #
      bystanders (29 / 10), 0)"
  by (simp add: updateBacterium_settled_streptococcus updateBacterium_settled_ecoli
      updateBacteria_bystanders)

lemma frame1_pass:
  "forEachProjectile (1 / 10) 100 0
     [antibody (Vector3 0 1 (5 / 2)) 0, antibody (Vector3 0 1 (5 / 2)) 0,
      antibody (Vector3 3 1 5) 0]
     (settled (Vector3 0 1 0) streptococcus (29 / 10) # settled (Vector3 3 1 0) ecoli (29 / 10) #
        bystanders (29 / 10)) =
   ([antibody (Vector3 0 1 0) 0, antibody (Vector3 0 1 0) 0, antibody (Vector3 3 1 (5 / 2)) 0],
    (settled (Vector3 0 1 0) streptococcus (29 / 10))\<lparr>health := 0\<rparr> #
       settled (Vector3 3 1 0) ecoli (29 / 10) # bystanders (29 / 10),
    [0, 1], [0])"
  by (simp add: moveProjectile_def expired_def antibody_def add_def multiplyScalar_def
      collideBacteria_step collideBacteria_bystanders inRange_iff distanceToSquared_def
      sub3_def lengthSq_def settled_def cellAt_def type_facts Let_def
      del: collideBacteria.simps(2))

lemma frame1_update:
  "updateProjectiles mountClosure (1 / 10) 100
     [antibody (Vector3 0 1 (5 / 2)) 0, antibody (Vector3 0 1 (5 / 2)) 0,
      antibody (Vector3 3 1 5) 0]
     (settled (Vector3 0 1 0) streptococcus (29 / 10) # settled (Vector3 3 1 0) ecoli (29 / 10) #
        bystanders (29 / 10))
     (initialState\<lparr>totalBacteria := 12\<rparr>) =
   ([antibody (Vector3 3 1 (5 / 2)) 0],
    settled (Vector3 3 1 0) ecoli (29 / 10) # bystanders (29 / 10),
    \<lparr>score = 75, bacteriaKilled = 1, totalBacteria = 12, gameComplete = True,
      onScoreUpdate_calls = [25], onComplete_calls = [75]\<rparr>)"
  unfolding updateProjectiles_def frame1_pass
  by (simp add: uniqueDescending_def splice1_def scoreKill_def mountClosure_def
      completionThreshold_def initialState_def settled_def cellAt_def type_facts)

lemma frame1: "animate rnd player0 (1 / 10) 100 world0 = world1"
  by (simp add: animate_def world0_def frame1_bacteria frame1_update completionEffect_def
      world1_def del: updateBacteria.simps)

lemma frame2_bacteria:
  "updateBacteria rnd 0 player0 (1 / 10)
     (settled (Vector3 3 1 0) ecoli (29 / 10) # bystanders (29 / 10)) =
   (settled (Vector3 3 1 0) ecoli (14 / 5) # bystanders (14 / 5), 0)"
  by (simp add: updateBacterium_settled_ecoli updateBacteria_bystanders)

lemma frame2_pass:
  "forEachProjectile (1 / 10) 200 0 [antibody (Vector3 3 1 (5 / 2)) 0]
     (settled (Vector3 3 1 0) ecoli (14 / 5) # bystanders (14 / 5)) =
   ([antibody (Vector3 3 1 0) 0],
    (settled (Vector3 3 1 0) ecoli (14 / 5))\<lparr>health := 0\<rparr> # bystanders (14 / 5),
    [0], [0])"
  by (simp add: moveProjectile_def expired_def antibody_def add_def multiplyScalar_def
      collideBacteria_step collideBacteria_bystanders inRange_iff distanceToSquared_def
      sub3_def lengthSq_def settled_def cellAt_def type_facts Let_def
      del: collideBacteria.simps(2))

lemma frame2_update:
  "updateProjectiles mountClosure (1 / 10) 200 [antibody (Vector3 3 1 (5 / 2)) 0]
     (settled (Vector3 3 1 0) ecoli (14 / 5) # bystanders (14 / 5))
     \<lparr>score = 75, bacteriaKilled = 1, totalBacteria = 12, gameComplete = True,
       onScoreUpdate_calls = [25], onComplete_calls = [75]\<rparr> =
   ([], bystanders (14 / 5),
    \<lparr>score = 60, bacteriaKilled = 2, totalBacteria = 12, gameComplete = True,
      onScoreUpdate_calls = [25, 10], onComplete_calls = [75, 60]\<rparr>)"
  unfolding updateProjectiles_def frame2_pass
  by (simp add: uniqueDescending_def splice1_def scoreKill_def mountClosure_def
      completionThreshold_def settled_def cellAt_def type_facts)

lemma frame2: "animate rnd player0 (1 / 10) 200 world1 = world2"
  by (simp add: animate_def world1_def frame2_bacteria frame2_update completionEffect_def
      world2_def del: updateBacteria.simps)

lemma worked_game:
  "run rnd [Frame player0 (1 / 10) 100] world0 = world1 \<and>
   run rnd [Frame player0 (1 / 10) 100, Frame player0 (1 / 10) 200] world0 = world2"
  by (simp add: frame1 frame2)

subsection \<open>Hit points and dead bacteria\<close>

lemma spawnedIn_alive: "spawnedIn room b \<Longrightarrow> 0 < health b"
  by (auto simp: spawnedIn_def type_facts)

lemma spawnRooms_alive: "\<forall>b \<in> set (fst (spawnRooms rnd k rooms)). 0 < health b"
proof (induction rooms arbitrary: k)
  case Nil
  then show ?case by simp
next
  case (Cons room rooms)
  show ?case
  proof (cases "hasBacteria room")
    case True
    have here: "\<forall>b \<in> set (fst (spawnBacteriaInRoom rnd k room)). 0 < health b"
      using spawnBacteriaInRoom_spawnedIn spawnedIn_alive by blast
    show ?thesis
      using True here Cons.IH [of "snd (snd (spawnBacteriaInRoom rnd k room))"]
      by (auto simp: split_def Let_def)
  next
    case False
    then show ?thesis using Cons.IH [of k] by simp
  qed
qed

lemma run_alive:
  "\<forall>b \<in> set (bacteria w). 0 < health b \<Longrightarrow>
   \<forall>b \<in> set (bacteria (run rnd es w)). 0 < health b"
proof (induction es arbitrary: w)
  case Nil
  then show ?case by simp
next
  case (Cons e es)
  show ?case
  proof (cases e)
    case (Frame playerPos delta now)
    have "\<forall>b \<in> set (bacteria (animate rnd playerPos delta now w)). 0 < health b"
      using Cons.prems by (rule animate_alive)
    then have "\<forall>b \<in> set (bacteria (run rnd es (animate rnd playerPos delta now w))).
        0 < health b"
      by (rule Cons.IH)
    then show ?thesis using Frame by simp
  next
    case (Click cameraPosition lookDirection now)
    have "\<forall>b \<in> set (bacteria
        (w\<lparr>projectiles := shoot cameraPosition lookDirection now (projectiles w)\<rparr>)).
        0 < health b"
      using Cons.prems by simp
    then have "\<forall>b \<in> set (bacteria (run rnd es
        (w\<lparr>projectiles := shoot cameraPosition lookDirection now (projectiles w)\<rparr>))).
        0 < health b"
      by (rule Cons.IH)
    then show ?thesis using Click by simp
  qed
qed

lemma forEachProjectile_nonneg:
  "\<forall>b \<in> set bs. 0 \<le> health b \<Longrightarrow>
   \<forall>b \<in> set (fst (snd (forEachProjectile deltaTime now pIndex ps bs))). 0 \<le> health b"
  unfolding forEachProjectile_bacteria by (rule foldl_damage_nonneg)

text \<open>
  C4: hit points never go below 0 in a collision pass; a bacterium without hit points is
  passed over by the steering step (returned as it is, with no random draw) and by the
  collision loop (kept as it is, with nothing listed for removal on its account); every
  spawned bacterium has hit points, and after every frame, however many frames and
  clicks have gone before, every bacterium still in the list has hit points, so none
  without hit points is present in a later frame.
\<close>

theorem hit_points_nonnegative_dead_skipped:
  "(health b \<le> 0 \<longrightarrow> updateBacterium rnd k playerPos deltaTime b = (b, k)) \<and>
   (health b \<le> 0 \<longrightarrow>
      collideBacteria p pIndex bIndex (b # bs) =
        (case collideBacteria p pIndex (Suc bIndex) bs of (bs', pr, br) \<Rightarrow> (b # bs', pr, br))) \<and>
   ((\<forall>x \<in> set bs. 0 \<le> health x) \<longrightarrow>
      (\<forall>x \<in> set (fst (snd (forEachProjectile deltaTime now pIndex ps bs))). 0 \<le> health x)) \<and>
   (\<forall>x \<in> set (fst (spawnRooms rnd k rooms)). 0 < health x) \<and>
   ((\<forall>x \<in> set (bacteria w). 0 < health x) \<longrightarrow>
      (\<forall>x \<in> set (bacteria (run rnd es w)). 0 < health x))"
proof (intro conjI impI)
  assume "health b \<le> 0"
  then show "updateBacterium rnd k playerPos deltaTime b = (b, k)"
    by (simp add: updateBacterium_def)
next
  assume "health b \<le> 0"
  then show "collideBacteria p pIndex bIndex (b # bs) =
      (case collideBacteria p pIndex (Suc bIndex) bs of (bs', pr, br) \<Rightarrow> (b # bs', pr, br))"
    by (simp add: split_def Let_def)
next
  assume "\<forall>x \<in> set bs. 0 \<le> health x"
  then show "\<forall>x \<in> set (fst (snd (forEachProjectile deltaTime now pIndex ps bs))). 0 \<le> health x"
    by (rule forEachProjectile_nonneg)
next
  show "\<forall>x \<in> set (fst (spawnRooms rnd k rooms)). 0 < health x"
    by (rule spawnRooms_alive)
next
  assume "\<forall>x \<in> set (bacteria w). 0 < health x"
  then show "\<forall>x \<in> set (bacteria (run rnd es w)). 0 < health x"
    by (rule run_alive)
qed

theorem hit_points_nonnegative_dead_skipped_witness:
  "health deadCell \<le> 0 \<and>
   updateBacterium (\<lambda>_. half) 0 player0 (1 / 10) deadCell = (deadCell, 0) \<and>
   collideBacteria (antibody (Vector3 0 1 0) 0) 0 0 [deadCell] = ([deadCell], [], []) \<and>
   list_all (\<lambda>x. 0 < health x) (bacteria world0) \<and>
   bacteria (run (\<lambda>_. half) [Frame player0 (1 / 10) 100] world0) = bacteria world1 \<and>
   list_all (\<lambda>x. 0 < health x) (bacteria (run (\<lambda>_. half) [Frame player0 (1 / 10) 100] world0))"
proof -
  have dead: "health deadCell \<le> 0"
    by (simp add: deadCell_def)
  have alive: "\<forall>x \<in> set (bacteria world0). 0 < health x"
    by (simp add: world0_def bystanders_def settled_def cellAt_def type_facts)
  note inst = hit_points_nonnegative_dead_skipped [of deadCell "\<lambda>_. half" 0 player0 "1 / 10"
      "antibody (Vector3 0 1 0) 0" 0 0 "[]" 100 "[]" "[]" world0
      "[Frame player0 (1 / 10) 100]"]
  note steered = inst [THEN conjunct1, THEN mp, OF dead]
  note tested = inst [THEN conjunct2, THEN conjunct1, THEN mp, OF dead]
  note later = inst [THEN conjunct2, THEN conjunct2, THEN conjunct2, THEN conjunct2, THEN mp,
      OF alive]
  have t: "collideBacteria (antibody (Vector3 0 1 0) 0) 0 0 [deadCell] = ([deadCell], [], [])"
    using tested by simp
  have a: "list_all (\<lambda>x. 0 < health x) (bacteria world0)"
    using alive by (simp only: list_all_iff)
  have l: "list_all (\<lambda>x. 0 < health x)
      (bacteria (run (\<lambda>_. half) [Frame player0 (1 / 10) 100] world0))"
    using later by (simp only: list_all_iff)
  have r: "bacteria (run (\<lambda>_. half) [Frame player0 (1 / 10) 100] world0) = bacteria world1"
    by (simp add: frame1)
  show ?thesis using dead steered t a r l by (intro conjI)
qed

subsection \<open>One projectile, several bacteria\<close>

text \<open>
  C1, as stated, fails: a projectile is not used up by its first hit within a pass. One
  antibody within 0.6 of two E. coli takes the single hit point of both in the same pass.
\<close>

theorem one_projectile_two_bacteria_counterexample:
  "map health closePair = [1, 1] \<and>
   map health (fst (snd (forEachProjectile (1 / 10) 100 0
      [antibody (Vector3 0 1 (5 / 2)) 0] closePair))) = [0, 0] \<and>
   snd (snd (forEachProjectile (1 / 10) 100 0
      [antibody (Vector3 0 1 (5 / 2)) 0] closePair)) = ([0, 0], [0, 1])"
  by (simp add: closePair_def moveProjectile_def expired_def antibody_def add_def
      multiplyScalar_def collideBacteria_step inRange_iff distanceToSquared_def sub3_def
      lengthSq_def cellAt_def type_facts Let_def
      del: collideBacteria.simps(2))

text \<open>
  C1, amended: in the collision loop of a projectile that has not expired, every bacterium
  that has hit points when it is tested and lies within 0.6 of the projectile loses one hit
  point, and the projectile's index is listed for removal once for each of them; the
  first projectile of a pass is listed exactly when it has expired or hits some bacterium,
  and the projectiles that stay after the pass are those not listed. Over a whole pass a
  bacterium loses one hit point for each unexpired projectile within 0.6 of it, down to 0.
\<close>

theorem projectile_damages_all_in_range:
  "fst (collideBacteria p pIndex bIndex bs) = map (damage p) bs \<and>
   fst (snd (collideBacteria p pIndex bIndex bs)) =
     replicate (length (filter (hitBy p) bs)) pIndex \<and>
   (pIndex \<in> set (fst (snd (snd (forEachProjectile deltaTime now pIndex (q # ps) bs)))) \<longleftrightarrow>
      expired now (moveProjectile deltaTime q) \<or>
      (\<exists>b \<in> set bs. hitBy (moveProjectile deltaTime q) b)) \<and>
   fst (updateProjectiles c deltaTime now ps bs s) =
     nths (map (moveProjectile deltaTime) ps)
       {j. j \<notin> set (fst (snd (snd (forEachProjectile deltaTime now 0 ps bs))))} \<and>
   (i < length bs \<and> 0 \<le> health (bs ! i) \<longrightarrow>
      health (fst (snd (forEachProjectile deltaTime now pIndex ps bs)) ! i) =
        max 0 (health (bs ! i) -
          int (length (filter (\<lambda>p. inRange p (bs ! i)) (colliding deltaTime now ps)))))"
proof -
  have "health (fst (snd (forEachProjectile deltaTime now pIndex ps bs)) ! i) =
        max 0 (health (bs ! i) -
          int (length (filter (\<lambda>p. inRange p (bs ! i)) (colliding deltaTime now ps))))"
    if "i < length bs" and "0 \<le> health (bs ! i)"
    using that by (simp add: forEachProjectile_bacteria foldl_damage_nth foldl_damage_health)
  then show ?thesis
    using collideBacteria_damage [of p pIndex bIndex bs]
      collideBacteria_projectile_pushes [of p pIndex bIndex bs]
      forEachProjectile_head_listed [of pIndex deltaTime now q ps bs]
      updateProjectiles_projectiles [of c deltaTime now ps bs s]
    by blast
qed

lemma colliding_world0:
  "colliding (1 / 10) 100 (projectiles world0) =
     [antibody (Vector3 0 1 0) 0, antibody (Vector3 0 1 0) 0, antibody (Vector3 3 1 (5 / 2)) 0]"
  by (simp add: colliding_def world0_def moveProjectile_def expired_def antibody_def add_def
      multiplyScalar_def)

theorem projectile_damages_all_in_range_witness:
  "health (bacteria world0 ! 0) = 2 \<and>
   length (filter (\<lambda>p. inRange p (bacteria world0 ! 0))
     (colliding (1 / 10) 100 (projectiles world0))) = 2 \<and>
   health (fst (snd (forEachProjectile (1 / 10) 100 0 (projectiles world0) (bacteria world0)))
     ! 0) = 0"
proof -
  have h: "health (bacteria world0 ! 0) = 2"
    by (simp add: world0_def settled_def cellAt_def type_facts)
  have pre: "0 < length (bacteria world0) \<and> 0 \<le> health (bacteria world0 ! 0)"
    using h by (simp add: world0_def)
  have n: "length (filter (\<lambda>p. inRange p (bacteria world0 ! 0))
      (colliding (1 / 10) 100 (projectiles world0))) = 2"
    unfolding colliding_world0
    by (simp add: world0_def settled_def cellAt_def antibody_def inRange_iff
        distanceToSquared_def sub3_def lengthSq_def)
  note inst = projectile_damages_all_in_range [where bs = "bacteria world0"
      and deltaTime = "1 / 10" and now = 100 and pIndex = 0 and ps = "projectiles world0"
      and i = 0]
  note pass = inst [THEN conjunct2, THEN conjunct2, THEN conjunct2, THEN conjunct2, THEN mp,
      OF pre]
  have "health (fst (snd (forEachProjectile (1 / 10) 100 0 (projectiles world0)
      (bacteria world0))) ! 0) = 0"
    using pass unfolding n h by simp
  then show ?thesis using h n by (intro conjI)
qed

subsection \<open>Projectile motion and expiry\<close>

lemma moveProjectile_same:
  "direction (moveProjectile deltaTime p) = direction p \<and>
   speed (moveProjectile deltaTime p) = speed p \<and>
   createdAt (moveProjectile deltaTime p) = createdAt p"
  by (simp add: moveProjectile_def)

lemma updateProjectiles_subset:
  "set (fst (updateProjectiles c deltaTime now ps bs s)) \<subseteq> moveProjectile deltaTime ` set ps"
proof -
  have "set (fst (updateProjectiles c deltaTime now ps bs s)) \<subseteq>
      set (map (moveProjectile deltaTime) ps)"
    unfolding updateProjectiles_projectiles by (rule set_nths_subset)
  then show ?thesis by simp
qed

lemma animate_projectiles:
  "projectiles (animate rnd playerPos delta now w) =
     fst (updateProjectiles mountClosure (min delta (1 / 10)) now (projectiles w)
       (fst (updateBacteria rnd (nextRandom w) playerPos (min delta (1 / 10)) (bacteria w)))
       (state w))"
  by (simp add: animate_def Let_def split_def)

lemma animate_speed:
  assumes "\<forall>q \<in> set (projectiles w). speed q = 25"
  shows "\<forall>q \<in> set (projectiles (animate rnd playerPos delta now w)). speed q = 25"
proof
  fix q
  assume "q \<in> set (projectiles (animate rnd playerPos delta now w))"
  then have "q \<in> moveProjectile (min delta (1 / 10)) ` set (projectiles w)"
    unfolding animate_projectiles using updateProjectiles_subset by blast
  then show "speed q = 25" using assms by (auto simp: moveProjectile_same)
qed

lemma run_speed:
  "\<forall>q \<in> set (projectiles w). speed q = 25 \<Longrightarrow>
   \<forall>q \<in> set (projectiles (run rnd es w)). speed q = 25"
proof (induction es arbitrary: w)
  case Nil
  then show ?case by simp
next
  case (Cons e es)
  show ?case
  proof (cases e)
    case (Frame playerPos delta now)
    have "\<forall>q \<in> set (projectiles (animate rnd playerPos delta now w)). speed q = 25"
      using Cons.prems by (rule animate_speed)
    then have "\<forall>q \<in> set (projectiles (run rnd es (animate rnd playerPos delta now w))).
        speed q = 25"
      by (rule Cons.IH)
    then show ?thesis using Frame by simp
  next
    case (Click cameraPosition lookDirection now)
    have "\<forall>q \<in> set (projectiles
        (w\<lparr>projectiles := shoot cameraPosition lookDirection now (projectiles w)\<rparr>)).
        speed q = 25"
      using Cons.prems by (simp add: shoot_def)
    then have "\<forall>q \<in> set (projectiles (run rnd es
        (w\<lparr>projectiles := shoot cameraPosition lookDirection now (projectiles w)\<rparr>))).
        speed q = 25"
      by (rule Cons.IH)
    then show ?thesis using Click by simp
  qed
qed

lemma colliding_age:
  "colliding deltaTime now ps =
     filter (\<lambda>q. now - createdAt q \<le> 3000) (map (moveProjectile deltaTime) ps)"
  by (simp add: colliding_def expired_def not_less)

lemma bacteriaBefore_0: "bacteriaBefore deltaTime now ps bs 0 = bs"
  by (simp add: bacteriaBefore_def colliding_def)

lemma bacteriaBefore_Suc:
  "bacteriaBefore deltaTime now (p # ps) bs (Suc j) =
     bacteriaBefore deltaTime now ps
       (if expired now (moveProjectile deltaTime p) then bs
        else map (damage (moveProjectile deltaTime p)) bs) j"
  by (simp add: bacteriaBefore_def colliding_def)

lemma stays_0:
  "stays deltaTime now (p # ps) bs 0 \<longleftrightarrow>
     \<not> expired now (moveProjectile deltaTime p) \<and>
     (\<forall>b \<in> set bs. \<not> hitBy (moveProjectile deltaTime p) b)"
  by (simp add: stays_def bacteriaBefore_0)

lemma stays_Suc:
  "stays deltaTime now (p # ps) bs (Suc j) \<longleftrightarrow>
     stays deltaTime now ps
       (if expired now (moveProjectile deltaTime p) then bs
        else map (damage (moveProjectile deltaTime p)) bs) j"
  by (simp add: stays_def bacteriaBefore_Suc)

text \<open>A projectile of a pass is listed for removal exactly when it does not stay.\<close>

lemma forEachProjectile_listed_iff:
  "j < length ps \<Longrightarrow>
   pIndex + j \<in> set (fst (snd (snd (forEachProjectile deltaTime now pIndex ps bs)))) \<longleftrightarrow>
     \<not> stays deltaTime now ps bs j"
proof (induction ps arbitrary: pIndex bs j)
  case Nil
  then show ?case by simp
next
  case (Cons p ps)
  let ?p = "moveProjectile deltaTime p"
  let ?bs1 = "if expired now ?p then bs else map (damage ?p) bs"
  show ?case
  proof (cases j)
    case 0
    then show ?thesis
      using forEachProjectile_head_listed [of pIndex deltaTime now p ps bs]
      by (simp add: stays_0)
  next
    case (Suc n)
    with Cons.prems have n: "n < length ps" by simp
    have "pIndex + Suc n \<in>
        set (fst (snd (snd (forEachProjectile deltaTime now pIndex (p # ps) bs)))) \<longleftrightarrow>
      Suc pIndex + n \<in>
        set (fst (snd (snd (forEachProjectile deltaTime now (Suc pIndex) ps ?bs1))))"
      by (simp add: split_def Let_def collideBacteria_projectile_pushes collideBacteria_damage)
    also have "\<dots> \<longleftrightarrow> \<not> stays deltaTime now ps ?bs1 n"
      using n by (rule Cons.IH)
    also have "\<dots> \<longleftrightarrow> \<not> stays deltaTime now (p # ps) bs (Suc n)"
      by (simp only: stays_Suc)
    finally show ?thesis using Suc by simp
  qed
qed

lemma updateProjectiles_stays:
  "fst (updateProjectiles c deltaTime now ps bs s) =
     nths (map (moveProjectile deltaTime) ps) {j. stays deltaTime now ps bs j}"
proof -
  have "nths (map (moveProjectile deltaTime) ps)
        {j. j \<notin> set (fst (snd (snd (forEachProjectile deltaTime now 0 ps bs))))} =
      nths (map (moveProjectile deltaTime) ps) {j. stays deltaTime now ps bs j}"
  proof (rule nths_cong_below)
    fix j
    assume "j < length (map (moveProjectile deltaTime) ps)"
    then have "j < length ps" by simp
    from forEachProjectile_listed_iff [OF this, of 0 deltaTime now bs]
    show "j \<in> {j. j \<notin> set (fst (snd (snd (forEachProjectile deltaTime now 0 ps bs))))} \<longleftrightarrow>
        j \<in> {j. stays deltaTime now ps bs j}"
      by simp
  qed
  then show ?thesis by (simp only: updateProjectiles_projectiles)
qed

lemma foldl_damage_position:
  assumes "b' \<in> set (foldl (\<lambda>bs p. map (damage p) bs) bs qs)"
  shows "\<exists>b \<in> set bs. mesh_position b' = mesh_position b"
proof -
  from assms obtain i where i: "i < length bs"
    and b': "b' = foldl (\<lambda>bs p. map (damage p) bs) bs qs ! i"
    by (auto simp: in_set_conv_nth foldl_damage_length)
  have "mesh_position b' = mesh_position (bs ! i)"
    unfolding b' by (simp add: foldl_damage_nth [OF i] foldl_damage_same)
  moreover have "bs ! i \<in> set bs" using i by simp
  ultimately show ?thesis by blast
qed

text \<open>
  When no unexpired projectile is within range of a bacterium, the projectiles that stay
  are exactly the unexpired ones.
\<close>

lemma updateProjectiles_out_of_range:
  assumes "\<forall>q \<in> set (colliding deltaTime now ps). \<forall>b \<in> set bs. \<not> inRange q b"
  shows "fst (updateProjectiles c deltaTime now ps bs s) = colliding deltaTime now ps"
proof -
  let ?ms = "map (moveProjectile deltaTime) ps"
  have "nths ?ms {j. stays deltaTime now ps bs j} =
      nths ?ms {j. j < length ?ms \<and> \<not> expired now (?ms ! j)}"
  proof (rule nths_cong_below)
    fix j
    assume j: "j < length ?ms"
    then have jp: "j < length ps" by simp
    have "stays deltaTime now ps bs j \<longleftrightarrow> \<not> expired now (moveProjectile deltaTime (ps ! j))"
    proof
      assume "stays deltaTime now ps bs j"
      then show "\<not> expired now (moveProjectile deltaTime (ps ! j))"
        by (simp add: stays_def)
    next
      assume live: "\<not> expired now (moveProjectile deltaTime (ps ! j))"
      have "moveProjectile deltaTime (ps ! j) \<in> set (colliding deltaTime now ps)"
        using jp live by (auto simp: colliding_def)
      then have far: "\<forall>b \<in> set bs. \<not> inRange (moveProjectile deltaTime (ps ! j)) b"
        using assms by blast
      have "\<not> hitBy (moveProjectile deltaTime (ps ! j)) b'"
        if "b' \<in> set (bacteriaBefore deltaTime now ps bs j)" for b'
      proof -
        from that obtain b where "b \<in> set bs" and "mesh_position b' = mesh_position b"
          unfolding bacteriaBefore_def using foldl_damage_position by blast
        then show ?thesis using far by (simp add: hitBy_def inRange_def)
      qed
      then show "stays deltaTime now ps bs j"
        using live by (simp add: stays_def)
    qed
    then show "j \<in> {j. stays deltaTime now ps bs j} \<longleftrightarrow>
        j \<in> {j. j < length ?ms \<and> \<not> expired now (?ms ! j)}"
      using jp by simp
  qed
  also have "\<dots> = filter (\<lambda>q. \<not> expired now q) ?ms"
    by (rule filter_eq_nths [symmetric])
  finally show ?thesis
    by (simp add: updateProjectiles_stays colliding_def)
qed

text \<open>
  C8, as stated, fails at the boundary: a frame at exactly 3000 ms after the creation of
  a projectile does not remove it, and the projectile still takes the hit point of a
  bacterium in range.
\<close>

theorem projectile_alive_at_3000_counterexample:
  "createdAt (antibody (Vector3 0 1 (5 / 2)) 0) = 0 \<and>
   fst (updateProjectiles mountClosure (1 / 10) 3000 [antibody (Vector3 0 1 (5 / 2)) 0] []
     initialState) = [antibody (Vector3 0 1 0) 0] \<and>
   map health (fst (snd (forEachProjectile (1 / 10) 3000 0 [antibody (Vector3 0 1 (5 / 2)) 0]
     [cellAt (Vector3 0 1 0) ecoli]))) = [0]"
  by (simp add: updateProjectiles_def uniqueDescending_def
      moveProjectile_def expired_def antibody_def add_def
      multiplyScalar_def collideBacteria_step inRange_iff distanceToSquared_def sub3_def
      lengthSq_def cellAt_def type_facts Let_def
      del: collideBacteria.simps(2))

text \<open>
  C8, amended: \<^verbatim>\<open>shoot\<close> creates a projectile of speed 25 stamped with the current
  time, every projectile of a run that starts with such projectiles has speed 25, and a
  frame moves each projectile by direction times speed times the frame delta. A
  projectile counts as expired in a frame when more than 3000 ms have passed since its
  creation. Only projectiles of age at most 3000 ms reach the collision loop, so an
  expired projectile damages nothing, and after the frame no expired projectile is left.
  The projectiles left after the frame are, in their order and at their moved positions,
  exactly those that are not expired and hit no bacterium in their collision loop; when
  no unexpired projectile is within range of a bacterium they are all the unexpired ones.
\<close>

theorem projectile_motion_and_expiry:
  "p_position (moveProjectile deltaTime p) =
     add (p_position p) (multiplyScalar (direction p) (speed p * deltaTime)) \<and>
   speed (last (shoot cameraPosition lookDirection t ps)) = 25 \<and>
   createdAt (last (shoot cameraPosition lookDirection t ps)) = t \<and>
   ((\<forall>q \<in> set (projectiles w). speed q = 25) \<longrightarrow>
      (\<forall>q \<in> set (projectiles (run rnd es w)). speed q = 25)) \<and>
   (expired now p \<longleftrightarrow> 3000 < now - createdAt p) \<and>
   fst (snd (forEachProjectile deltaTime now pIndex ps bs)) =
     foldl (\<lambda>bs p. map (damage p) bs) bs (colliding deltaTime now ps) \<and>
   colliding deltaTime now ps =
     filter (\<lambda>q. now - createdAt q \<le> 3000) (map (moveProjectile deltaTime) ps) \<and>
   (\<forall>q \<in> set (fst (updateProjectiles c deltaTime now ps bs s)). \<not> expired now q) \<and>
   fst (updateProjectiles c deltaTime now ps bs s) =
     nths (map (moveProjectile deltaTime) ps) {j. stays deltaTime now ps bs j} \<and>
   ((\<forall>q \<in> set (colliding deltaTime now ps). \<forall>b \<in> set bs. \<not> inRange q b) \<longrightarrow>
      fst (updateProjectiles c deltaTime now ps bs s) = colliding deltaTime now ps)"
proof -
  have "p_position (moveProjectile deltaTime p) =
     add (p_position p) (multiplyScalar (direction p) (speed p * deltaTime))"
    by (simp add: moveProjectile_def)
  moreover have "speed (last (shoot cameraPosition lookDirection t ps)) = 25 \<and>
      createdAt (last (shoot cameraPosition lookDirection t ps)) = t"
    by (simp add: shoot_def)
  moreover have "expired now p \<longleftrightarrow> 3000 < now - createdAt p"
    by (simp add: expired_def)
  ultimately show ?thesis
    using run_speed [of w rnd es] forEachProjectile_bacteria [of deltaTime now pIndex ps bs]
      colliding_age [of deltaTime now ps]
      updateProjectiles_none_expired [of _ c deltaTime now ps bs s]
      updateProjectiles_stays [of c deltaTime now ps bs s]
      updateProjectiles_out_of_range [of deltaTime now ps bs c s]
    by blast
qed

theorem projectile_motion_and_expiry_witness:
  "list_all (\<lambda>q. speed q = 25) (projectiles world0) \<and>
   list_all (\<lambda>q. speed q = 25)
     (projectiles (run (\<lambda>_. half) [Frame player0 (1 / 10) 100] world0)) \<and>
   \<not> expired 2900 (antibody (Vector3 0 1 (5 / 2)) 0) \<and>
   colliding (1 / 10) 2900 [antibody (Vector3 0 1 (5 / 2)) 0] = [antibody (Vector3 0 1 0) 0] \<and>
   expired 3001 (antibody (Vector3 0 1 (5 / 2)) 0) \<and>
   colliding (1 / 10) 3001 [antibody (Vector3 0 1 (5 / 2)) 0] = [] \<and>
   updateProjectiles mountClosure (1 / 10) 3001 [antibody (Vector3 0 1 (5 / 2)) 0]
     [cellAt (Vector3 0 1 0) ecoli] initialState =
     ([], [cellAt (Vector3 0 1 0) ecoli], initialState) \<and>
   \<not> inRange (antibody (Vector3 0 1 0) 0) (cellAt (Vector3 3 1 0) ecoli) \<and>
   fst (updateProjectiles mountClosure (1 / 10) 2900 [antibody (Vector3 0 1 (5 / 2)) 0]
     [cellAt (Vector3 3 1 0) ecoli] initialState) = [antibody (Vector3 0 1 0) 0] \<and>
   fst (updateProjectiles mountClosure (1 / 10) 3000 [antibody (Vector3 0 1 (5 / 2)) 0]
     [cellAt (Vector3 3 1 0) ecoli] initialState) = [antibody (Vector3 0 1 0) 0]"
proof -
  have fast: "\<forall>q \<in> set (projectiles world0). speed q = 25"
    by (simp add: world0_def antibody_def)
  note inst = projectile_motion_and_expiry [where w = world0 and rnd = "\<lambda>_. half"
      and es = "[Frame player0 (1 / 10) 100]"]
  note later = inst [THEN conjunct2, THEN conjunct2, THEN conjunct2, THEN conjunct1, THEN mp,
      OF fast]
  have a: "list_all (\<lambda>q. speed q = 25) (projectiles world0)"
    using fast by (simp only: list_all_iff)
  have b: "list_all (\<lambda>q. speed q = 25)
      (projectiles (run (\<lambda>_. half) [Frame player0 (1 / 10) 100] world0))"
    using later by (simp only: list_all_iff)
  have c: "\<not> expired 2900 (antibody (Vector3 0 1 (5 / 2)) 0) \<and>
      expired 3001 (antibody (Vector3 0 1 (5 / 2)) 0)"
    by (simp add: expired_def antibody_def)
  have d: "colliding (1 / 10) 2900 [antibody (Vector3 0 1 (5 / 2)) 0] =
        [antibody (Vector3 0 1 0) 0] \<and>
      colliding (1 / 10) 3001 [antibody (Vector3 0 1 (5 / 2)) 0] = []"
    by (simp add: colliding_def expired_def moveProjectile_def antibody_def add_def
        multiplyScalar_def)
  have e: "updateProjectiles mountClosure (1 / 10) 3001 [antibody (Vector3 0 1 (5 / 2)) 0]
     [cellAt (Vector3 0 1 0) ecoli] initialState =
     ([], [cellAt (Vector3 0 1 0) ecoli], initialState)"
    by (simp add: updateProjectiles_def uniqueDescending_def splice1_def
        moveProjectile_def expired_def antibody_def)
  have far: "\<not> inRange (antibody (Vector3 0 1 0) 0) (cellAt (Vector3 3 1 0) ecoli)"
    by (simp add: inRange_iff antibody_def cellAt_def distanceToSquared_def sub3_def
        lengthSq_def)
  have d0: "colliding (1 / 10) 3000 [antibody (Vector3 0 1 (5 / 2)) 0] =
      [antibody (Vector3 0 1 0) 0]"
    by (simp add: colliding_def expired_def moveProjectile_def antibody_def add_def
        multiplyScalar_def)
  have clear29: "\<forall>q \<in> set (colliding (1 / 10) 2900 [antibody (Vector3 0 1 (5 / 2)) 0]).
      \<forall>b \<in> set [cellAt (Vector3 3 1 0) ecoli]. \<not> inRange q b"
    unfolding d [THEN conjunct1] using far by simp
  have clear30: "\<forall>q \<in> set (colliding (1 / 10) 3000 [antibody (Vector3 0 1 (5 / 2)) 0]).
      \<forall>b \<in> set [cellAt (Vector3 3 1 0) ecoli]. \<not> inRange q b"
    unfolding d0 using far by simp
  note kept29 = projectile_motion_and_expiry [where c = mountClosure and s = initialState,
      THEN conjunct2, THEN conjunct2, THEN conjunct2, THEN conjunct2, THEN conjunct2,
      THEN conjunct2, THEN conjunct2, THEN conjunct2, THEN conjunct2, THEN mp, OF clear29]
  note kept30 = projectile_motion_and_expiry [where c = mountClosure and s = initialState,
      THEN conjunct2, THEN conjunct2, THEN conjunct2, THEN conjunct2, THEN conjunct2,
      THEN conjunct2, THEN conjunct2, THEN conjunct2, THEN conjunct2, THEN mp, OF clear30]
  have f: "fst (updateProjectiles mountClosure (1 / 10) 2900 [antibody (Vector3 0 1 (5 / 2)) 0]
      [cellAt (Vector3 3 1 0) ecoli] initialState) = [antibody (Vector3 0 1 0) 0]"
    using kept29 unfolding d [THEN conjunct1] .
  have g: "fst (updateProjectiles mountClosure (1 / 10) 3000 [antibody (Vector3 0 1 (5 / 2)) 0]
      [cellAt (Vector3 3 1 0) ecoli] initialState) = [antibody (Vector3 0 1 0) 0]"
    using kept30 unfolding d0 .
  show ?thesis using a b c d e far f g by (intro conjI) simp_all
qed

subsection \<open>Scoring and completion in the frame loop\<close>

text \<open>
  In the frame loop the score after a kill is the points of the killed type plus the
  bonus, whatever the score was, and every kill reports completion.
\<close>

lemma scoreKill_mountClosure:
  assumes "0 \<le> bacteriaKilled s"
  shows "scoreKill mountClosure ty s =
     s\<lparr>score := t_points ty + 50,
       onScoreUpdate_calls := onScoreUpdate_calls s @ [t_points ty],
       gameComplete := True,
       onComplete_calls := onComplete_calls s @ [min 100 (t_points ty + 50)],
       bacteriaKilled := bacteriaKilled s + 1\<rparr>"
  using assms
  by (simp add: scoreKill_def mountClosure_def completionThreshold_def Let_def)

text \<open>
  The second effect reports completion when the kill count of the current state has
  reached the threshold of the current total and completion has not been set.
\<close>

lemma completionEffect_fires:
  assumes "0 < totalBacteria s" and "completionThreshold (totalBacteria s) \<le> bacteriaKilled s"
    and "\<not> gameComplete s" and "0 < bacteriaKilled s"
  shows "completionEffect s =
     s\<lparr>gameComplete := True, score := score s + 50,
       onComplete_calls := onComplete_calls s @ [min 100 (score s + 50)]\<rparr>"
  using assms by (simp add: completionEffect_def Let_def)

lemma completionEffect_idle: "gameComplete s \<Longrightarrow> completionEffect s = s"
  by (simp add: completionEffect_def)

text \<open>
  C2 is not met by the code. In the worked game the first frame kills the streptococcus
  and leaves the score at 75; the second kills the E. coli and leaves it at 60: the score
  has gone down, and neither kill added its points to the score before it.
\<close>

theorem score_drops_in_worked_game:
  "score (state world0) = 0 \<and>
   score (state (run (\<lambda>_. half) [Frame player0 (1 / 10) 100] world0)) = 75 \<and>
   score (state (run (\<lambda>_. half)
     [Frame player0 (1 / 10) 100, Frame player0 (1 / 10) 200] world0)) = 60 \<and>
   onScoreUpdate_calls (state (run (\<lambda>_. half)
     [Frame player0 (1 / 10) 100, Frame player0 (1 / 10) 200] world0)) = [25, 10]"
proof -
  have one: "run (\<lambda>_. half) [Frame player0 (1 / 10) 100] world0 = world1"
    by (simp add: frame1)
  have two: "run (\<lambda>_. half)
      [Frame player0 (1 / 10) 100, Frame player0 (1 / 10) 200] world0 = world2"
    by (simp add: frame1 frame2)
  show ?thesis
    unfolding one two by (simp add: world0_def world1_def world2_def initialState_def)
qed

text \<open>
  C3 is not met by the code. In the worked game 12 bacteria were spawned, so the
  threshold is 10; the first kill sets the completion flag and reports 75, and the
  second kill reports completion again, with 60.
\<close>

theorem completion_reported_at_every_kill:
  "totalBacteria (state world0) = 12 \<and> completionThreshold 12 = 10 \<and>
   bacteriaKilled (state world0) = 0 \<and> length (bacteria world0) = 12 \<and>
   \<not> gameComplete (state world0) \<and> onComplete_calls (state world0) = [] \<and>
   bacteriaKilled (state (run (\<lambda>_. half) [Frame player0 (1 / 10) 100] world0)) = 1 \<and>
   gameComplete (state (run (\<lambda>_. half) [Frame player0 (1 / 10) 100] world0)) \<and>
   onComplete_calls (state (run (\<lambda>_. half) [Frame player0 (1 / 10) 100] world0)) = [75] \<and>
   bacteriaKilled (state (run (\<lambda>_. half)
     [Frame player0 (1 / 10) 100, Frame player0 (1 / 10) 200] world0)) = 2 \<and>
   onComplete_calls (state (run (\<lambda>_. half)
     [Frame player0 (1 / 10) 100, Frame player0 (1 / 10) 200] world0)) = [75, 60]"
proof -
  have one: "run (\<lambda>_. half) [Frame player0 (1 / 10) 100] world0 = world1"
    by (simp add: frame1)
  have two: "run (\<lambda>_. half)
      [Frame player0 (1 / 10) 100, Frame player0 (1 / 10) 200] world0 = world2"
    by (simp add: frame1 frame2)
  show ?thesis
    unfolding one two
    by (simp add: world0_def world1_def world2_def initialState_def completionThreshold_def
        bystanders_def)
qed

subsection \<open>Directions of length zero\<close>

lemma length3_eq_zero_iff: "length3 v = 0 \<longleftrightarrow> v = Vector3 0 0 0"
proof
  assume "length3 v = 0"
  then have "vx v * vx v + vy v * vy v + vz v * vz v = 0"
    by (simp add: length3_def lengthSq_def)
  then have "vx v = 0 \<and> vy v = 0 \<and> vz v = 0"
    by (simp add: add_nonneg_eq_0_iff)
  then show "v = Vector3 0 0 0" by (cases v) simp
next
  assume "v = Vector3 0 0 0"
  then show "length3 v = 0" by (simp add: length3_zero)
qed

lemma lerp_to_zero: "lerp v (Vector3 0 0 0) alpha = multiplyScalar v (1 - alpha)"
  by (simp add: lerp_def multiplyScalar_def algebra_simps)

lemma multiplyScalar_zero: "multiplyScalar (Vector3 0 0 0) s = Vector3 0 0 0"
  by (simp add: multiplyScalar_def)

text \<open>
  C9, as stated, fails: \<^verbatim>\<open>updateBacteria\<close> makes no zero-length check of its own and no
  default direction takes the place of a zero-length one. For a bacterium exactly at its
  wander target the normalised direction is the zero vector, of length 0, and the step
  only scales the velocity by 0.98.
\<close>

theorem arrived_at_target_counterexample:
  "targetPosition arrivedCell = Some (mesh_position arrivedCell) \<and>
   targetDirection arrivedCell = Vector3 0 0 0 \<and>
   length3 (targetDirection arrivedCell) = 0 \<and>
   velocity (fst (updateBacterium (\<lambda>_. half) 0 player0 (1 / 10) arrivedCell)) =
     Vector3 (98 / 100) 0 0"
  by (simp add: arrivedCell_def cellAt_def targetDirection_def sub3_self normalize3_zero
      length3_zero updateBacterium_def steer_def retargetWander_def type_facts Let_def
      lerp_def multiplyScalar_def)

text \<open>
  C9, amended: normalisation divides by the length, or by 1 when the length is 0. A
  vector of length zero is therefore normalised to the zero vector, without any division
  by zero, and any other vector to a vector of length 1. A live wandering bacterium that
  stands exactly at its target, with time left on its timer, has its velocity scaled by
  0.98; a live chasing bacterium exactly at the player's position has it scaled by 0.95.
  \<^verbatim>\<open>shoot\<close> stores the look direction as it is given, without normalising it.
\<close>

theorem zero_length_normalizes_to_zero:
  "(length3 v = 0 \<longrightarrow> normalize3 v = Vector3 0 0 0) \<and>
   (length3 v \<noteq> 0 \<longrightarrow> length3 (normalize3 v) = 1) \<and>
   (0 < health b \<and> t_behavior (btype b) = wander \<and>
    targetPosition b = Some (mesh_position b) \<and> deltaTime < wanderTimer b \<longrightarrow>
      velocity (fst (updateBacterium rnd k playerPos deltaTime b)) =
        multiplyScalar (velocity b) (98 / 100)) \<and>
   (0 < health b \<and> t_behavior (btype b) = chase \<and> mesh_position b = playerPos \<longrightarrow>
      velocity (fst (updateBacterium rnd k playerPos deltaTime b)) =
        multiplyScalar (velocity b) (95 / 100)) \<and>
   direction (last (shoot cameraPosition lookDirection now ps)) = lookDirection"
proof (intro conjI impI)
  assume "length3 v = 0"
  then show "normalize3 v = Vector3 0 0 0"
    by (simp add: length3_eq_zero_iff normalize3_zero)
next
  assume "length3 v \<noteq> 0"
  then show "length3 (normalize3 v) = 1"
    by (simp add: length3_normalize3)
next
  assume a: "0 < health b \<and> t_behavior (btype b) = wander \<and>
    targetPosition b = Some (mesh_position b) \<and> deltaTime < wanderTimer b"
  then show "velocity (fst (updateBacterium rnd k playerPos deltaTime b)) =
      multiplyScalar (velocity b) (98 / 100)"
    by (simp add: updateBacterium_def steer_def retargetWander_def targetDirection_def
        sub3_self normalize3_zero multiplyScalar_zero lerp_to_zero Let_def)
next
  assume a: "0 < health b \<and> t_behavior (btype b) = chase \<and> mesh_position b = playerPos"
  have near: "distanceTo playerPos playerPos < 15"
    by (simp add: distanceTo_def distanceToSquared_def sub3_self lengthSq_def)
  from a near show "velocity (fst (updateBacterium rnd k playerPos deltaTime b)) =
      multiplyScalar (velocity b) (95 / 100)"
    by (simp add: updateBacterium_def steer_def sub3_self normalize3_zero
        multiplyScalar_zero lerp_to_zero Let_def)
next
  show "direction (last (shoot cameraPosition lookDirection now ps)) = lookDirection"
    by (simp add: shoot_def)
qed

theorem zero_length_normalizes_to_zero_witness:
  "length3 (sub3 (Vector3 1 1 1) (mesh_position arrivedCell)) = 0 \<and>
   normalize3 (sub3 (Vector3 1 1 1) (mesh_position arrivedCell)) = Vector3 0 0 0 \<and>
   length3 (Vector3 0 0 3) \<noteq> 0 \<and> length3 (normalize3 (Vector3 0 0 3)) = 1 \<and>
   0 < health arrivedCell \<and> t_behavior (btype arrivedCell) = wander \<and>
   velocity (fst (updateBacterium (\<lambda>_. half) 0 player0 (1 / 10) arrivedCell)) =
     Vector3 (98 / 100) 0 0 \<and>
   0 < health farChaser \<and> t_behavior (btype farChaser) = chase \<and>
   velocity (fst (updateBacterium (\<lambda>_. half) 0 (mesh_position farChaser) (1 / 10) farChaser)) =
     Vector3 0 0 0"
proof -
  have z: "length3 (sub3 (Vector3 1 1 1) (mesh_position arrivedCell)) = 0"
    by (simp add: arrivedCell_def cellAt_def sub3_self length3_zero)
  have nz: "length3 (Vector3 0 0 3) \<noteq> 0"
    by (simp add: length3_along_z)
  have w: "0 < health arrivedCell \<and> t_behavior (btype arrivedCell) = wander \<and>
      targetPosition arrivedCell = Some (mesh_position arrivedCell) \<and>
      1 / 10 < wanderTimer arrivedCell"
    by (simp add: arrivedCell_def cellAt_def type_facts)
  have c: "0 < health farChaser \<and> t_behavior (btype farChaser) = chase \<and>
      mesh_position farChaser = mesh_position farChaser"
    by (simp add: farChaser_def type_facts)
  note n0 = zero_length_normalizes_to_zero [where v = "sub3 (Vector3 1 1 1)
      (mesh_position arrivedCell)", THEN conjunct1, THEN mp, OF z]
  note n1 = zero_length_normalizes_to_zero [where v = "Vector3 0 0 3", THEN conjunct2,
      THEN conjunct1, THEN mp, OF nz]
  note sw = zero_length_normalizes_to_zero [where b = arrivedCell and deltaTime = "1 / 10"
      and rnd = "\<lambda>_. half" and k = 0 and playerPos = player0,
      THEN conjunct2, THEN conjunct2, THEN conjunct1, THEN mp, OF w]
  note sc = zero_length_normalizes_to_zero [where b = farChaser and deltaTime = "1 / 10"
      and rnd = "\<lambda>_. half" and k = 0 and playerPos = "mesh_position farChaser",
      THEN conjunct2, THEN conjunct2, THEN conjunct2, THEN conjunct1, THEN mp, OF c]
  have vw: "velocity (fst (updateBacterium (\<lambda>_. half) 0 player0 (1 / 10) arrivedCell)) =
      Vector3 (98 / 100) 0 0"
    unfolding sw by (simp add: arrivedCell_def cellAt_def multiplyScalar_def)
  have vc: "velocity (fst (updateBacterium (\<lambda>_. half) 0 (mesh_position farChaser) (1 / 10)
      farChaser)) = Vector3 0 0 0"
    unfolding sc by (simp add: farChaser_def multiplyScalar_def)
  show ?thesis
    using z n0 nz n1 w c vw vc by (intro conjI) simp_all
qed

subsection \<open>The velocity bound in exact arithmetic\<close>

lemma updateProjectiles_speedBounded:
  assumes "\<forall>b \<in> set bs. speedBounded b"
  shows "\<forall>b \<in> set (fst (snd (updateProjectiles c deltaTime now ps bs s))). speedBounded b"
proof
  fix b
  let ?bs1 = "fst (snd (forEachProjectile deltaTime now 0 ps bs))"
  assume "b \<in> set (fst (snd (updateProjectiles c deltaTime now ps bs s)))"
  then have "b \<in> set (fst (removeBacteria c
      (uniqueDescending (snd (snd (snd (forEachProjectile deltaTime now 0 ps bs))))) ?bs1 s))"
    by (simp add: updateProjectiles_def split_def Let_def)
  then have "b \<in> set ?bs1"
    using removeBacteria_subset by (rule subsetD [rotated])
  then obtain i where i: "i < length bs"
    and b: "b = foldl (\<lambda>b p. damage p b) (bs ! i) (colliding deltaTime now ps)"
    by (auto simp: forEachProjectile_bacteria in_set_conv_nth foldl_damage_length
        foldl_damage_nth)
  from i assms have "speedBounded (bs ! i)" by simp
  then show "speedBounded b"
    unfolding b by (simp add: speedBounded_def foldl_damage_same)
qed

lemma animate_speedBounded:
  assumes "\<forall>b \<in> set (bacteria w). speedBounded b"
  shows "\<forall>b \<in> set (bacteria (animate rnd playerPos delta now w)). speedBounded b"
  unfolding animate_bacteria
  by (intro updateProjectiles_speedBounded updateBacteria_speedBounded assms)

lemma run_speedBounded:
  "\<forall>b \<in> set (bacteria w). speedBounded b \<Longrightarrow>
   \<forall>b \<in> set (bacteria (run rnd es w)). speedBounded b"
proof (induction es arbitrary: w)
  case Nil
  then show ?case by simp
next
  case (Cons e es)
  show ?case
  proof (cases e)
    case (Frame playerPos delta now)
    have "\<forall>b \<in> set (bacteria (animate rnd playerPos delta now w)). speedBounded b"
      using Cons.prems by (rule animate_speedBounded)
    then have "\<forall>b \<in> set (bacteria (run rnd es (animate rnd playerPos delta now w))).
        speedBounded b"
      by (rule Cons.IH)
    then show ?thesis using Frame by simp
  next
    case (Click cameraPosition lookDirection now)
    have "\<forall>b \<in> set (bacteria
        (w\<lparr>projectiles := shoot cameraPosition lookDirection now (projectiles w)\<rparr>)).
        speedBounded b"
      using Cons.prems by simp
    then have "\<forall>b \<in> set (bacteria (run rnd es
        (w\<lparr>projectiles := shoot cameraPosition lookDirection now (projectiles w)\<rparr>))).
        speedBounded b"
      by (rule Cons.IH)
    then show ?thesis using Click by simp
  qed
qed

lemma spawnLoop_speedBounded:
  "b \<in> set (fst (spawnLoop rnd k room n)) \<Longrightarrow> speedBounded b"
proof (induction n arbitrary: k)
  case 0
  then show ?case by simp
next
  case (Suc n)
  from Suc.prems have "b = fst (spawnOne rnd k room) \<or>
      b \<in> set (fst (spawnLoop rnd (snd (spawnOne rnd k room)) room n))"
    by (simp add: split_def Let_def)
  then show ?case using spawnOne_speedBounded Suc.IH by blast
qed

lemma spawnRooms_speedBounded:
  "\<forall>b \<in> set (fst (spawnRooms rnd k rooms)). speedBounded b"
proof (induction rooms arbitrary: k)
  case Nil
  then show ?case by simp
next
  case (Cons room rooms)
  show ?case
  proof (cases "hasBacteria room")
    case True
    have here: "\<forall>b \<in> set (fst (spawnBacteriaInRoom rnd k room)). speedBounded b"
      using spawnLoop_speedBounded
      by (auto simp: spawnBacteriaInRoom_def split_def Let_def)
    show ?thesis
      using True here Cons.IH [of "snd (snd (spawnBacteriaInRoom rnd k room))"]
      by (auto simp: split_def Let_def)
  next
    case False
    then show ?thesis using Cons.IH [of k] by simp
  qed
qed

text \<open>
  A property of the model over the reals, not of the program's double-precision numbers.
  A bacterium is spawned at rest, and a steering step moves the velocity a fraction of the
  way towards a vector that, computed exactly, is no longer than the type's base speed;
  nothing else changes a velocity. The source computes \<^verbatim>\<open>normalize\<close>,
  \<^verbatim>\<open>multiplyScalar\<close> and \<^verbatim>\<open>lerp\<close> in IEEE doubles, where the normalised direction
  times the speed can be longer than the speed by a unit in the last place and the
  velocity can follow it there. The lemma below therefore bounds the velocity of the
  program only up to that rounding, and says nothing about whether the rounded velocity
  ever exceeds the base speed.
\<close>

lemma velocity_bound_exact_arithmetic:
  "speedBounded (fst (spawnOne rnd k room)) \<and>
   velocity (fst (spawnOne rnd k room)) = Vector3 0 0 0 \<and>
   (\<forall>b \<in> set (fst (spawnRooms rnd k rooms)). speedBounded b) \<and>
   (speedBounded b \<longrightarrow> speedBounded (fst (updateBacterium rnd k playerPos deltaTime b))) \<and>
   ((\<forall>b \<in> set bs. speedBounded b) \<longrightarrow>
      (\<forall>b \<in> set (fst (updateBacteria rnd k playerPos deltaTime bs)). speedBounded b)) \<and>
   ((\<forall>b \<in> set (bacteria w). speedBounded b) \<longrightarrow>
      (\<forall>b \<in> set (bacteria (run rnd es w)). speedBounded b))"
proof (intro conjI impI)
  show "speedBounded (fst (spawnOne rnd k room))"
    by (rule spawnOne_speedBounded)
  show "velocity (fst (spawnOne rnd k room)) = Vector3 0 0 0"
    by (simp add: spawnOne_def Let_def)
  show "\<forall>b \<in> set (fst (spawnRooms rnd k rooms)). speedBounded b"
    by (rule spawnRooms_speedBounded)
next
  assume "speedBounded b"
  then show "speedBounded (fst (updateBacterium rnd k playerPos deltaTime b))"
    by (rule updateBacterium_speedBounded)
next
  assume "\<forall>b \<in> set bs. speedBounded b"
  then show "\<forall>b \<in> set (fst (updateBacteria rnd k playerPos deltaTime bs)). speedBounded b"
    by (rule updateBacteria_speedBounded)
next
  assume "\<forall>b \<in> set (bacteria w). speedBounded b"
  then show "\<forall>b \<in> set (bacteria (run rnd es w)). speedBounded b"
    by (rule run_speedBounded)
qed

lemma velocity_bound_exact_arithmetic_example:
  "speedBounded farChaser \<and>
   speedBounded (fst (updateBacterium (\<lambda>_. half) 0 (Vector3 0 1 0) (1 / 10) farChaser)) \<and>
   velocity (fst (updateBacterium (\<lambda>_. half) 0 (Vector3 0 1 0) (1 / 10) farChaser)) =
     Vector3 0 0 (3 / 100) \<and>
   list_all speedBounded
     (fst (updateBacteria (\<lambda>_. half) 0 (Vector3 0 1 0) (1 / 10) [farChaser])) \<and>
   list_all speedBounded (bacteria world0) \<and>
   list_all speedBounded (bacteria (run (\<lambda>_. half) [Frame player0 (1 / 10) 100] world0))"
proof -
  have sb: "speedBounded farChaser"
    by (simp add: speedBounded_def farChaser_def type_facts length3_zero)
  have all: "\<forall>b \<in> set [farChaser]. speedBounded b"
    using sb by simp
  have start: "\<forall>b \<in> set (bacteria world0). speedBounded b"
    by (simp add: world0_def bystanders_def settled_def cellAt_def speedBounded_def type_facts
        length3_zero)
  note inst = velocity_bound_exact_arithmetic [where rnd = "\<lambda>_. half" and k = 0
      and b = farChaser and playerPos = "Vector3 0 1 0" and deltaTime = "1 / 10"
      and bs = "[farChaser]" and w = world0 and es = "[Frame player0 (1 / 10) 100]"]
  note one = inst [THEN conjunct2, THEN conjunct2, THEN conjunct2, THEN conjunct1, THEN mp,
      OF sb]
  note many = inst [THEN conjunct2, THEN conjunct2, THEN conjunct2, THEN conjunct2,
      THEN conjunct1, THEN mp, OF all]
  note later = inst [THEN conjunct2, THEN conjunct2, THEN conjunct2, THEN conjunct2,
      THEN conjunct2, THEN mp, OF start]
  have m: "list_all speedBounded
      (fst (updateBacteria (\<lambda>_. half) 0 (Vector3 0 1 0) (1 / 10) [farChaser]))"
    using many by (simp only: list_all_iff)
  have s0: "list_all speedBounded (bacteria world0)"
    using start by (simp only: list_all_iff)
  have l: "list_all speedBounded
      (bacteria (run (\<lambda>_. half) [Frame player0 (1 / 10) 100] world0))"
    using later by (simp only: list_all_iff)
  show ?thesis
    using sb one farChaser_step [of "\<lambda>_. half" 0] m s0 l by (intro conjI)
qed

end
